theory Spec2Isabelle
  imports Main "HOL-Library.Word"
begin

section \<open>Addresses and transport tags\<close>

text \<open>
  A Go \<open>net.IP\<close> is a byte slice. \<open>None\<close> is the nil slice, \<open>Some bs\<close> a slice
  holding the bytes \<open>bs\<close>; the code tests both \<open>ip == nil\<close> and \<open>len(ip) == 0\<close>, which
  differ on an empty slice that is not nil.
\<close>

type_synonym byte = "8 word"
type_synonym IP = "byte list option"

definition IP_len :: "IP \<Rightarrow> nat" where
  "IP_len ip = (case ip of None \<Rightarrow> 0 | Some bs \<Rightarrow> length bs)"

text \<open>\<open>net.IP.To4\<close>: the 4-byte form of an IPv4 address, nil for anything else.\<close>

definition IP_To4 :: "IP \<Rightarrow> IP" where
  "IP_To4 ip =
     (case ip of
        None \<Rightarrow> None
      | Some bs \<Rightarrow>
          if length bs = 4 then Some bs
          else if length bs = 16 \<and> take 10 bs = replicate 10 0
                  \<and> bs ! 10 = 0xff \<and> bs ! 11 = 0xff
          then Some (drop 12 bs)
          else None)"

fun uitoa :: "nat \<Rightarrow> string" where
  "uitoa n = (if n < 10 then [char_of (48 + n)]
              else uitoa (n div 10) @ [char_of (48 + n mod 10)])"

declare uitoa.simps [simp del]

definition hexDigit :: "nat \<Rightarrow> char" where
  "hexDigit n = ''0123456789abcdef'' ! (n mod 16)"

fun appendHex :: "nat \<Rightarrow> string" where
  "appendHex n = (if n < 16 then [hexDigit n]
                  else appendHex (n div 16) @ [hexDigit (n mod 16)])"

declare appendHex.simps [simp del]

definition hexString :: "byte list \<Rightarrow> string" where
  "hexString bs = concat (map (\<lambda>b. [hexDigit (unat b div 16), hexDigit (unat b mod 16)]) bs)"

fun join_with :: "string \<Rightarrow> string list \<Rightarrow> string" where
  "join_with sep [] = []"
| "join_with sep [x] = x"
| "join_with sep (x # y # ys) = x @ sep @ join_with sep (y # ys)"

fun groups16 :: "byte list \<Rightarrow> nat list" where
  "groups16 (hi # lo # bs) = (unat hi * 256 + unat lo) # groups16 bs"
| "groups16 bs = []"

text \<open>
  The zero run that \<open>net.IP.String\<close> writes as \<open>::\<close>: the leftmost longest run of zero
  groups, as \<open>(start, end)\<close> group indices, and only when it is longer than one group.
\<close>

fun zero_run :: "nat list \<Rightarrow> nat" where
  "zero_run [] = 0"
| "zero_run (g # gs) = (if g = 0 then Suc (zero_run gs) else 0)"

fun longest_zero_run :: "nat list \<Rightarrow> nat \<Rightarrow> (nat \<times> nat) \<Rightarrow> (nat \<times> nat)" where
  "longest_zero_run [] i best = best"
| "longest_zero_run (g # gs) i (e0, e1) =
     (let n = zero_run (g # gs)
      in longest_zero_run gs (Suc i) (if n > e1 - e0 then (i, i + n) else (e0, e1)))"

definition IP_String :: "IP \<Rightarrow> string" where
  "IP_String ip =
     (if IP_len ip = 0 then ''<nil>''
      else case IP_To4 ip of
        Some p4 \<Rightarrow> join_with ''.'' (map (\<lambda>b. uitoa (unat b)) p4)
      | None \<Rightarrow>
          let p = the ip in
          if length p \<noteq> 16 then ''?'' @ hexString p
          else
            let gs = groups16 p;
                (e0, e1) = longest_zero_run gs 0 (0, 0)
            in if e1 - e0 \<le> 1 then join_with '':'' (map appendHex gs)
               else join_with '':'' (map appendHex (take e0 gs)) @ ''::''
                    @ join_with '':'' (map appendHex (drop e1 gs)))"

text \<open>\<open>type transport int8\<close> with the two constants declared by \<open>iota\<close>.\<close>

datatype transport = TRANS_DIRECT | TRANS_PROXY

section \<open>The SOCKS5 request of the proxy front\<close>

text \<open>The address-type tags of the SOCKS5 protocol, as \<open>gosocks5\<close> names them.\<close>

definition AddrIPv4 :: "8 word" where "AddrIPv4 = 1"
definition AddrDomain :: "8 word" where "AddrDomain = 3"
definition AddrIPv6 :: "8 word" where "AddrIPv6 = 4"

record Addr =
  Type :: "8 word"
  Host :: string
  Port :: "16 word"

record socks5Request =
  Cmd :: "8 word"
  req_Addr :: Addr

definition setRedirect :: "socks5Request \<Rightarrow> IP \<Rightarrow> socks5Request" where
  "setRedirect r ip =
     (let addrType = (if IP_To4 ip \<noteq> None then AddrIPv4 else AddrIPv4)
      in r\<lparr>req_Addr := (req_Addr r)\<lparr>Type := addrType, Host := IP_String ip\<rparr>\<rparr>)"

definition getHostName :: "socks5Request \<Rightarrow> string" where
  "getHostName r = Host (req_Addr r)"

definition getAddrType :: "socks5Request \<Rightarrow> 8 word" where
  "getAddrType r = Type (req_Addr r)"

section \<open>DNS messages\<close>

text \<open>
  The message types of the DNS library, with the fields the program reads or writes.
  A resource record is a pointer to one of the library's record structs; the datatype's
  constructor is the struct's Go type. In every message the library parses or builds the
  Go type and the header's \<open>Rrtype\<close> agree, and the model reads the type off the
  constructor.
\<close>

definition TypeA :: "16 word" where "TypeA = 1"
definition TypeAAAA :: "16 word" where "TypeAAAA = 28"
definition TypeOPT :: "16 word" where "TypeOPT = 41"
definition ClassINET :: "16 word" where "ClassINET = 1"
definition EDNS0SUBNET :: "16 word" where "EDNS0SUBNET = 8"
definition OpcodeQuery :: int where "OpcodeQuery = 0"
definition RcodeSuccess :: int where "RcodeSuccess = 0"

record RR_Header =
  hdr_Name :: string
  Rrtype :: "16 word"
  Class :: "16 word"
  Ttl :: "32 word"
  Rdlength :: "16 word"

record EDNS0_SUBNET =
  Code :: "16 word"
  Family :: "16 word"
  SourceNetmask :: "8 word"
  SourceScope :: "8 word"
  Address :: IP

datatype EDNS0 = Subnet EDNS0_SUBNET | OtherOption "16 word" "byte list"

datatype RR =
    RR_A RR_Header IP
  | RR_AAAA RR_Header IP
  | RR_OPT RR_Header "EDNS0 list"
  | RR_RFC3597 RR_Header string
  | RR_Other RR_Header

fun Header :: "RR \<Rightarrow> RR_Header" where
  "Header (RR_A h a) = h"
| "Header (RR_AAAA h a) = h"
| "Header (RR_OPT h os) = h"
| "Header (RR_RFC3597 h d) = h"
| "Header (RR_Other h) = h"

fun set_Header :: "RR_Header \<Rightarrow> RR \<Rightarrow> RR" where
  "set_Header h' (RR_A h a) = RR_A h' a"
| "set_Header h' (RR_AAAA h a) = RR_AAAA h' a"
| "set_Header h' (RR_OPT h os) = RR_OPT h' os"
| "set_Header h' (RR_RFC3597 h d) = RR_RFC3597 h' d"
| "set_Header h' (RR_Other h) = RR_Other h'"

fun is_OPT :: "RR \<Rightarrow> bool" where
  "is_OPT (RR_OPT h os) = True"
| "is_OPT rr = False"

fun is_Subnet :: "EDNS0 \<Rightarrow> bool" where
  "is_Subnet (Subnet s) = True"
| "is_Subnet opt = False"

record dns_Question =
  q_Name :: string
  Qtype :: "16 word"
  Qclass :: "16 word"

record Msg =
  Id :: "16 word"
  Response :: bool
  Opcode :: int
  Authoritative :: bool
  Truncated :: bool
  RecursionDesired :: bool
  RecursionAvailable :: bool
  Zero :: bool
  AuthenticatedData :: bool
  CheckingDisabled :: bool
  Rcode :: int
  Compress :: bool
  Question :: "dns_Question list"
  Answer :: "RR list"
  Ns :: "RR list"
  Extra :: "RR list"

text \<open>\<open>new(dns.Msg)\<close>: every field at its zero value.\<close>

definition new_Msg :: Msg where
  "new_Msg = \<lparr>Id = 0, Response = False, Opcode = 0, Authoritative = False,
     Truncated = False, RecursionDesired = False, RecursionAvailable = False,
     Zero = False, AuthenticatedData = False, CheckingDisabled = False, Rcode = 0,
     Compress = False, Question = [], Answer = [], Ns = [], Extra = []\<rparr>"

definition MsgNewReplyFromReq :: "Msg \<Rightarrow> RR list \<Rightarrow> Msg" where
  "MsgNewReplyFromReq req answer =
     new_Msg\<lparr>Id := Id req, Response := True, Opcode := Opcode req,
       Rcode := RcodeSuccess,
       Question := (if length (Question req) > 0 then [hd (Question req)] else []),
       RecursionAvailable := True, Answer := answer\<rparr>"

text \<open>
  \<open>Msg.IsEdns0\<close> of the DNS library: the OPT record of the Additional section, searched
  from the end (\<open>for i := len(Extra) - 1; i >= 0; i--\<close>); \<open>None\<close> is its nil. The result
  is the record's position, standing for the pointer the library returns.
\<close>

fun IsEdns0_from :: "RR list \<Rightarrow> nat \<Rightarrow> nat option" where
  "IsEdns0_from xs 0 = None"
| "IsEdns0_from xs (Suc i) = (if is_OPT (xs ! i) then Some i else IsEdns0_from xs i)"

definition IsEdns0 :: "Msg \<Rightarrow> nat option" where
  "IsEdns0 m = IsEdns0_from (Extra m) (length (Extra m))"

fun opt_Option :: "RR \<Rightarrow> EDNS0 list" where
  "opt_Option (RR_OPT h os) = os"
| "opt_Option rr = []"

fun set_opt_Option :: "EDNS0 list \<Rightarrow> RR \<Rightarrow> RR" where
  "set_opt_Option os' (RR_OPT h os) = RR_OPT h os'"
| "set_opt_Option os' rr = rr"

text \<open>\<open>new(dns.OPT)\<close> with the two header fields \<open>MsgSetECSWithAddr\<close> assigns.\<close>

definition new_OPT :: RR where
  "new_OPT = RR_OPT \<lparr>hdr_Name = ''.'', Rrtype = TypeOPT, Class = 0, Ttl = 0, Rdlength = 0\<rparr> []"

definition new_EDNS0_SUBNET :: EDNS0_SUBNET where
  "new_EDNS0_SUBNET = \<lparr>Code = 0, Family = 0, SourceNetmask = 0, SourceScope = 0, Address = None\<rparr>"

text \<open>The assignments \<open>MsgSetECSWithAddr\<close> makes to the subnet option it found or made.\<close>

definition fill_ecs :: "IP \<Rightarrow> EDNS0_SUBNET \<Rightarrow> EDNS0_SUBNET" where
  "fill_ecs addr ecs =
     (if IP_To4 addr \<noteq> None
      then ecs\<lparr>Code := EDNS0SUBNET, Address := addr, Family := 1, SourceNetmask := 32,
                SourceScope := 0\<rparr>
      else ecs\<lparr>Code := EDNS0SUBNET, Address := addr, Family := 2, SourceNetmask := 128,
                SourceScope := 0\<rparr>)"

text \<open>
  The loop over \<open>option.Option\<close> that stops at the first \<open>*dns.EDNS0_SUBNET\<close>, the append of
  a new one when the loop found none, and the assignments to the one chosen.
\<close>

fun set_first_subnet :: "IP \<Rightarrow> EDNS0 list \<Rightarrow> EDNS0 list" where
  "set_first_subnet addr [] = [Subnet (fill_ecs addr new_EDNS0_SUBNET)]"
| "set_first_subnet addr (Subnet s # os) = Subnet (fill_ecs addr s) # os"
| "set_first_subnet addr (OtherOption c d # os) = OtherOption c d # set_first_subnet addr os"

definition MsgSetECSWithAddr :: "Msg \<Rightarrow> IP \<Rightarrow> Msg" where
  "MsgSetECSWithAddr m addr =
     (if addr = None then m
      else
        let (extra, i) =
              (case IsEdns0 m of
                 None \<Rightarrow> (Extra m @ [new_OPT], length (Extra m))
               | Some i \<Rightarrow> (Extra m, i));
            option = extra ! i
        in m\<lparr>Extra := extra[i := set_opt_Option (set_first_subnet addr (opt_Option option)) option]\<rparr>)"

text \<open>
  \<open>MsgExtractAnswer\<close>: the first A or AAAA record of the Answer section whose address is
  not empty, with that address. The position stands for the pointer into the message
  that the Go function returns; \<open>None\<close> is its \<open>nil, nil\<close>. The argument is \<open>None\<close> for a
  nil message.
\<close>

fun extract_from :: "nat \<Rightarrow> RR list \<Rightarrow> (nat \<times> RR \<times> IP) option" where
  "extract_from i [] = None"
| "extract_from i (RR_A h a # rs) =
     (if IP_len a \<noteq> 0 then Some (i, RR_A h a, a) else extract_from (Suc i) rs)"
| "extract_from i (RR_AAAA h a # rs) =
     (if IP_len a \<noteq> 0 then Some (i, RR_AAAA h a, a) else extract_from (Suc i) rs)"
| "extract_from i (r # rs) = extract_from (Suc i) rs"

definition MsgExtractAnswer :: "Msg option \<Rightarrow> (nat \<times> RR \<times> IP) option" where
  "MsgExtractAnswer msg = (case msg of None \<Rightarrow> None | Some m \<Rightarrow> extract_from 0 (Answer m))"

text \<open>\<open>dns.Fqdn\<close>: the name with a final dot.\<close>

definition IsFqdn :: "string \<Rightarrow> bool" where
  "IsFqdn s = (s \<noteq> [] \<and> last s = CHR ''.'')"

definition Fqdn :: "string \<Rightarrow> string" where
  "Fqdn s = (if IsFqdn s then s else s @ ''.'')"

section \<open>What the specification asks of a message with ECS set\<close>

text \<open>
  Two readings of the specification's sentence on the set-ECS operation. \<open>carries_ECS\<close>:
  the OPT record of the message has a subnet option, and the first one has family 1 and
  prefix 32 for an IPv4 address, family 2 and prefix 128 otherwise, scope 0 and the
  address. \<open>single_ECS\<close>, the sentence as it is written: there is exactly one OPT record
  in Additional, and it holds exactly one subnet option, with those fields.
  \<open>at_most_one_ECS\<close>: the message has at most one OPT record, and no record of it has
  more than one subnet option.
\<close>

fun first_subnet :: "EDNS0 list \<Rightarrow> EDNS0_SUBNET option" where
  "first_subnet [] = None"
| "first_subnet (Subnet s # os) = Some s"
| "first_subnet (OtherOption c d # os) = first_subnet os"

definition is_ecs_for :: "IP \<Rightarrow> EDNS0_SUBNET \<Rightarrow> bool" where
  "is_ecs_for a s =
     (Family s = (if IP_To4 a \<noteq> None then 1 else 2)
      \<and> SourceNetmask s = (if IP_To4 a \<noteq> None then 32 else 128)
      \<and> SourceScope s = 0 \<and> Address s = a)"

text \<open>
  The subnet option the specification describes for an address, and a list of options in
  which the first subnet option has been replaced by it (or to which it has been appended
  when there was none), every other option staying where it was.
\<close>

definition ecs_option :: "IP \<Rightarrow> EDNS0_SUBNET" where
  "ecs_option a =
     \<lparr>Code = EDNS0SUBNET, Family = (if IP_To4 a \<noteq> None then 1 else 2),
      SourceNetmask = (if IP_To4 a \<noteq> None then 32 else 128), SourceScope = 0, Address = a\<rparr>"

definition with_subnet :: "IP \<Rightarrow> EDNS0 list \<Rightarrow> EDNS0 list" where
  "with_subnet a os =
     (case dropWhile (\<lambda>x. \<not> is_Subnet x) os of
        [] \<Rightarrow> os @ [Subnet (ecs_option a)]
      | first # later \<Rightarrow> takeWhile (\<lambda>x. \<not> is_Subnet x) os @ Subnet (ecs_option a) # later)"

definition carries_ECS :: "Msg \<Rightarrow> IP \<Rightarrow> bool" where
  "carries_ECS m a =
     (case IsEdns0 m of
        None \<Rightarrow> False
      | Some i \<Rightarrow>
          (case first_subnet (opt_Option (Extra m ! i)) of
             None \<Rightarrow> False
           | Some s \<Rightarrow> is_ecs_for a s))"

definition single_ECS :: "Msg \<Rightarrow> IP \<Rightarrow> bool" where
  "single_ECS m a =
     (case filter is_OPT (Extra m) of
        [r] \<Rightarrow>
          (case filter is_Subnet (opt_Option r) of
             [Subnet s] \<Rightarrow> is_ecs_for a s
           | other \<Rightarrow> False)
      | other \<Rightarrow> False)"

definition at_most_one_ECS :: "Msg \<Rightarrow> bool" where
  "at_most_one_ECS m =
     (length (filter is_OPT (Extra m)) \<le> 1
      \<and> list_all (\<lambda>r. length (filter is_Subnet (opt_Option r)) \<le> 1) (Extra m))"


section \<open>The two caches\<close>

text \<open>
  Both caches wrap a store of the go-cache library (\<open>cache.Cache\<close>), which is an external
  package and not part of the sources under study. The store follows the library's
  contract: an item is a value with an expiry instant in nanoseconds (0: never);
  \<open>Get\<close> misses on an absent or expired item; \<open>Add\<close> stores only when \<open>Get\<close> would miss
  and otherwise returns an error, which both wrappers drop; the duration
  \<open>cache.DefaultExpiration\<close> (0) stands for the store's default. The janitor removes
  only items that \<open>Get\<close> already misses and is left out, so the cleanup interval \<open>ci\<close> of
  the constructors is not used. \<open>now\<close> is the clock reading.
\<close>

record 'v Cache =
  defaultExpiration :: int
  items :: "string \<Rightarrow> ('v \<times> int) option"

definition DefaultExpiration :: int where "DefaultExpiration = 0"

definition Cache_New :: "int \<Rightarrow> int \<Rightarrow> 'v Cache" where
  "Cache_New de ci = \<lparr>defaultExpiration = de, items = (\<lambda>k. None)\<rparr>"

definition Expired :: "int \<Rightarrow> int \<Rightarrow> bool" where
  "Expired now e = (e > 0 \<and> now > e)"

definition Cache_Get :: "int \<Rightarrow> 'v Cache \<Rightarrow> string \<Rightarrow> 'v option" where
  "Cache_Get now c k =
     (case items c k of
        None \<Rightarrow> None
      | Some (v, e) \<Rightarrow> if Expired now e then None else Some v)"

definition Cache_set :: "int \<Rightarrow> 'v Cache \<Rightarrow> string \<Rightarrow> 'v \<Rightarrow> int \<Rightarrow> 'v Cache" where
  "Cache_set now c k v d =
     (let d' = (if d = DefaultExpiration then defaultExpiration c else d);
          e = (if d' > 0 then now + d' else 0)
      in c\<lparr>items := (items c)(k := Some (v, e))\<rparr>)"

text \<open>
  The expiry instant of an item stored at \<open>now\<close> with the store's default: \<open>now\<close> plus the
  default expiration, or never (0) when the default is not positive.
\<close>

definition fresh_expiry :: "int \<Rightarrow> 'v Cache \<Rightarrow> int" where
  "fresh_expiry now c = (if defaultExpiration c > 0 then now + defaultExpiration c else 0)"

definition Cache_Add :: "int \<Rightarrow> 'v Cache \<Rightarrow> string \<Rightarrow> 'v \<Rightarrow> int \<Rightarrow> 'v Cache" where
  "Cache_Add now c k v d =
     (case Cache_Get now c k of
        Some old \<Rightarrow> c
      | None \<Rightarrow> Cache_set now c k v d)"

type_synonym ipcache = "transport Cache"

definition NewIpcache :: "int \<Rightarrow> int \<Rightarrow> ipcache" where
  "NewIpcache de ci = Cache_New de ci"

definition ipcache_Add :: "int \<Rightarrow> ipcache \<Rightarrow> string \<Rightarrow> transport \<Rightarrow> ipcache" where
  "ipcache_Add now c ip t =
     (if ip = [] then c else Cache_Add now c ip t DefaultExpiration)"

definition ipcache_Get :: "int \<Rightarrow> ipcache \<Rightarrow> string \<Rightarrow> transport option" where
  "ipcache_Get now c ip = Cache_Get now c ip"

record domaincacheCell =
  ans :: RR
  trans :: transport

type_synonym domaincache = "domaincacheCell Cache"

definition NewDomaincache :: "int \<Rightarrow> int \<Rightarrow> domaincache" where
  "NewDomaincache de ci = Cache_New de ci"

text \<open>
  \<open>domaincache.Add\<close> writes the owner name through the pointer it was given, before it
  stores the cell; the second component is the record as the caller's pointer sees it
  afterwards.
\<close>

definition domaincache_Add ::
  "int \<Rightarrow> domaincache \<Rightarrow> string \<Rightarrow> RR \<Rightarrow> transport \<Rightarrow> domaincache \<times> RR" where
  "domaincache_Add now c domain answer t =
     (if domain = [] then (c, answer)
      else
        let name = Fqdn domain;
            answer' = (if name \<noteq> hdr_Name (Header answer)
                       then set_Header ((Header answer)\<lparr>hdr_Name := name\<rparr>) answer
                       else answer);
            cell = \<lparr>ans = answer', trans = t\<rparr>
        in (Cache_Add now c domain cell DefaultExpiration, answer'))"

definition domaincache_Get :: "int \<Rightarrow> domaincache \<Rightarrow> string \<Rightarrow> domaincacheCell option" where
  "domaincache_Get now c domain = Cache_Get now c domain"

section \<open>The globals and their gate\<close>

text \<open>
  The package variables as \<open>InitGlobals\<close> leaves them; \<open>None\<close> is a nil pointer, interface,
  function or slice. The validator is a \<open>sync.Once\<close> with the cached result.
\<close>

record dnsTransport =
  nameserver :: string
  net :: string
  proxy :: bool

record DomainMatcher =
  MatchGFW :: "string \<Rightarrow> bool"
  MatchObedient :: "string \<Rightarrow> bool"

record globals =
  g_DEFAULT_IPCACHE_inner :: "ipcache option"
  g_DEFAULT_DOMAINCACHE_inner :: "domaincache option"
  g_DEFAULT_DOMAIN_MATCHER :: "DomainMatcher option"
  g_IP_MATCH_CHINESE_MAINLAND :: "(IP \<Rightarrow> bool) option"
  g_DNS_SUBNET_LOCAL_IP :: IP
  g_DNS_SUBNET_PROXY_IP :: IP
  g_DNSSTRANSPORT_OBEDIENT :: "dnsTransport option"
  g_DNSSTRANSPORT_ABROAD :: "dnsTransport option"

definition InitGlobals ::
  "ipcache option \<Rightarrow> domaincache option \<Rightarrow> DomainMatcher option \<Rightarrow> (IP \<Rightarrow> bool) option
   \<Rightarrow> IP \<Rightarrow> IP \<Rightarrow> dnsTransport option \<Rightarrow> dnsTransport option \<Rightarrow> globals" where
  "InitGlobals ipc domainc dm ipMatchCHN subnetLocalIP subnetProxyIP dtObedient dtAbroad =
     \<lparr>g_DEFAULT_IPCACHE_inner = ipc, g_DEFAULT_DOMAINCACHE_inner = domainc,
      g_DEFAULT_DOMAIN_MATCHER = dm, g_IP_MATCH_CHINESE_MAINLAND = ipMatchCHN,
      g_DNS_SUBNET_LOCAL_IP = subnetLocalIP, g_DNS_SUBNET_PROXY_IP = subnetProxyIP,
      g_DNSSTRANSPORT_OBEDIENT = dtObedient, g_DNSSTRANSPORT_ABROAD = dtAbroad\<rparr>"

record globalsValidator =
  once_done :: bool
  ok :: bool

definition newGlobalsValidator :: globalsValidator where
  "newGlobalsValidator = \<lparr>once_done = False, ok = False\<rparr>"

definition validate :: "globals \<Rightarrow> globalsValidator \<Rightarrow> bool \<times> globalsValidator" where
  "validate g v =
     (if once_done v then (ok v, v)
      else
        let v' = (if g_DEFAULT_IPCACHE_inner g \<noteq> None \<and>
                     g_DEFAULT_DOMAINCACHE_inner g \<noteq> None \<and>
                     g_DEFAULT_DOMAIN_MATCHER g \<noteq> None \<and>
                     g_IP_MATCH_CHINESE_MAINLAND g \<noteq> None \<and>
                     g_DNS_SUBNET_LOCAL_IP g \<noteq> None \<and>
                     g_DNS_SUBNET_LOCAL_IP g \<noteq> None \<and>
                     g_DNSSTRANSPORT_OBEDIENT g \<noteq> None \<and>
                     g_DNSSTRANSPORT_ABROAD g \<noteq> None
                  then v\<lparr>once_done := True, ok := True\<rparr>
                  else v\<lparr>once_done := True\<rparr>)
        in (ok v', v'))"

text \<open>
  What \<open>ServeDNS\<close> and \<open>ServeProxy\<close> do with the gate: return the error at once, or go on
  to \<open>serveDNS\<close> / \<open>serveProxy\<close>, which bind the listeners and serve. The two proxy chains
  of \<open>ServeProxy\<close> are handed on to \<open>serveProxy\<close> and play no part before that.
\<close>

datatype serve = Refused string | Serving

definition ServeDNS :: "globals \<Rightarrow> globalsValidator \<Rightarrow> string \<Rightarrow> serve \<times> globalsValidator" where
  "ServeDNS g v laddr =
     (let (passed, v') = validate g v
      in if \<not> passed then (Refused ''global vars are uninitialized'', v') else (Serving, v'))"

definition ServeProxy :: "globals \<Rightarrow> globalsValidator \<Rightarrow> string \<Rightarrow> serve \<times> globalsValidator" where
  "ServeProxy g v laddr =
     (let (passed, v') = validate g v
      in if \<not> passed then (Refused ''global vars are uninitialized'', v') else (Serving, v'))"

section \<open>The upstream transport\<close>

text \<open>
  The Google-JSON shape of a DoH answer, and the query values of the GET. Errors are
  their messages.
\<close>

type_synonym error = string

record DNSQuestion =
  g_Name :: string
  g_Type :: "32 word"

record DNSRR =
  rr_Name :: string
  rr_Type :: "32 word"
  rr_TTL :: "32 word"
  rr_Data :: string

record RespRepr =
  Status :: "32 word"
  TC :: bool
  RD :: bool
  RA :: bool
  AD :: bool
  CD :: bool
  resp_Question :: "DNSQuestion list"
  resp_Answer :: "DNSRR list"
  Authority :: "DNSRR list"
  Additional :: "DNSRR list"
  Edns_client_subnet :: string
  Comment :: string

text \<open>
  What one call of \<open>Exchange\<close> takes from outside the program: the HTTP round trip of the
  DoH GET with the JSON decoding (from the query values to the decoded answer), the dial,
  write and read of the binary protocol, \<open>net.ParseIP\<close>, and the types other than A, AAAA
  and OPT that the DNS library's \<open>TypeToRR\<close> table holds.
\<close>

record platform =
  RoundTrip :: "(string \<times> string) list \<Rightarrow> error + RespRepr"
  dial_write_read :: "dnsTransport \<Rightarrow> Msg \<Rightarrow> error + Msg"
  ParseIP :: "string \<Rightarrow> IP"
  TypeToRR_has :: "16 word \<Rightarrow> bool"

text \<open>
  \<open>google.Query\<close>: the values added to \<open>url.Values\<close>, in the order of the \<open>Add\<close> calls. The
  variadic \<open>ecs\<close> is the list of the arguments given; it is nil exactly when none was.
\<close>

definition Query_values :: "16 word \<Rightarrow> string \<Rightarrow> string list \<Rightarrow> (string \<times> string) list" where
  "Query_values qtype name ecs =
     [(''name'', name), (''type'', uitoa (unat qtype))] @
     (if ecs \<noteq> []
      then (let e = hd ecs; e' = (if e = [] then ''0.0.0.0/0'' else e)
            in [(''edns_client_subnet'', e')])
      else [])"

definition Query ::
  "platform \<Rightarrow> 16 word \<Rightarrow> string \<Rightarrow> string list \<Rightarrow> error + RespRepr" where
  "Query rt qtype name ecs = RoundTrip rt (Query_values qtype name ecs)"

definition RRNewFromGoogleDohRR :: "platform \<Rightarrow> DNSRR \<Rightarrow> RR" where
  "RRNewFromGoogleDohRR pf grr =
     (let rrhdr = \<lparr>hdr_Name = rr_Name grr, Rrtype = ucast (rr_Type grr), Class = ClassINET,
                   Ttl = rr_TTL grr, Rdlength = of_nat (length (rr_Data grr))\<rparr>;
          t = (ucast (rr_Type grr) :: 16 word)
      in if t = TypeA then RR_A rrhdr (ParseIP pf (rr_Data grr))
         else if t = TypeAAAA then RR_AAAA rrhdr (ParseIP pf (rr_Data grr))
         else if t = TypeOPT then RR_OPT rrhdr []
         else if TypeToRR_has pf t then RR_Other rrhdr
         else RR_RFC3597 rrhdr (rr_Data grr))"

text \<open>The loop over the request's options: every subnet option overwrites \<open>ecs\<close>.\<close>

fun request_ecs :: "IP \<Rightarrow> EDNS0 list \<Rightarrow> IP" where
  "request_ecs ecs [] = ecs"
| "request_ecs ecs (Subnet s # os) = request_ecs (Address s) os"
| "request_ecs ecs (OtherOption c d # os) = request_ecs ecs os"

text \<open>
  The address \<open>MsgExchangeOverGoogleDOH\<close> reads from the request's OPT record; nil when
  there is no OPT record or no subnet option in it.
\<close>

definition doh_ecs :: "Msg \<Rightarrow> IP" where
  "doh_ecs req =
     (case IsEdns0 req of
        None \<Rightarrow> None
      | Some i \<Rightarrow> request_ecs None (opt_Option (Extra req ! i)))"

text \<open>
  \<open>MsgExchangeOverGoogleDOH\<close>. The outer \<open>None\<close> is a panic of the goroutine (an index
  out of range on \<open>req.Question\<close>).
\<close>

definition MsgExchangeOverGoogleDOH :: "platform \<Rightarrow> Msg \<Rightarrow> (error + Msg) option" where
  "MsgExchangeOverGoogleDOH rt req =
     (case Question req of
        [] \<Rightarrow> None
      | q # qs \<Rightarrow>
          let qtype = Qtype q;
              name = q_Name q;
              ecs = doh_ecs req
          in (case Query rt qtype name [IP_String ecs] of
               Inl err \<Rightarrow> Some (Inl err)
             | Inr dohresp \<Rightarrow>
                 if length (resp_Question dohresp) > length (Question req) then None
                 else
                   let questions =
                         map (\<lambda>(c, rq). \<lparr>q_Name = g_Name c, Qtype = ucast (g_Type c),
                                          Qclass = Qclass rq\<rparr>)
                             (zip (resp_Question dohresp) (Question req));
                       answers = map (RRNewFromGoogleDohRR rt) (resp_Answer dohresp);
                       authorities = map (RRNewFromGoogleDohRR rt) (Authority dohresp);
                       extras = map (RRNewFromGoogleDohRR rt) (Additional dohresp);
                       resp = \<lparr>Id = Id req,
                               Response = (Status dohresp = 0),
                               Opcode = OpcodeQuery,
                               Authoritative = False,
                               Truncated = TC dohresp,
                               RecursionDesired = RD dohresp,
                               RecursionAvailable = RA dohresp,
                               Zero = False,
                               AuthenticatedData = AD dohresp,
                               CheckingDisabled = CD dohresp,
                               Rcode = sint (Status dohresp),
                               Compress = Compress req,
                               Question = questions,
                               Answer = answers,
                               Ns = authorities,
                               Extra = extras\<rparr>
                   in Some (Inr (if ecs \<noteq> None then MsgSetECSWithAddr resp ecs else resp))))"

definition ErrId :: error where
  "ErrId = ''dns: id mismatch''"

definition Exchange :: "platform \<Rightarrow> dnsTransport \<Rightarrow> Msg \<Rightarrow> (error + Msg) option" where
  "Exchange pf dt req =
     (if net dt = ''https'' then MsgExchangeOverGoogleDOH pf req
      else case dial_write_read pf dt req of
             Inl err \<Rightarrow> Some (Inl err)
           | Inr r \<Rightarrow> if Id r \<noteq> Id req then Some (Inl ErrId) else Some (Inr r))"

section \<open>The three-way race\<close>

text \<open>
  \<open>legallySpawnExchange\<close> starts three goroutines and receives from \<open>resp\<close>. Each
  goroutine is a short program over the shared counter and the two channels, and its
  atomic steps are: the branch on the result of \<open>Exchange\<close> (a send on \<open>resp\<close>, or the
  \<open>atomic.LoadInt32\<close>), and, after a load, the comparison with its outcome (the two sends,
  or the \<open>atomic.AddInt32\<close>). A schedule is the order in which the goroutines take their
  steps. \<open>resp\<close> has room for every send; the send on \<open>lastErr\<close> waits for the receiver,
  which comes only after a nil was received from \<open>resp\<close>.
\<close>

definition spawnNum :: nat where "spawnNum = 3"

record race =
  failedTimes :: int
  resp_chan :: "Msg option list"
  lastErr_chan :: "error list"
  pc :: "nat \<Rightarrow> nat"
  loaded :: "nat \<Rightarrow> int"
  panicked :: bool

definition race_init :: race where
  "race_init = \<lparr>failedTimes = 0, resp_chan = [], lastErr_chan = [], pc = (\<lambda>i. 0),
                 loaded = (\<lambda>i. 0), panicked = False\<rparr>"

definition goroutine_step :: "(nat \<Rightarrow> (error + Msg) option) \<Rightarrow> race \<Rightarrow> nat \<Rightarrow> race" where
  "goroutine_step result s i =
     (if i \<ge> spawnNum \<or> panicked s then s
      else if pc s i = 0 then
        (case result i of
           None \<Rightarrow> s\<lparr>panicked := True\<rparr>
         | Some (Inr r) \<Rightarrow> s\<lparr>resp_chan := resp_chan s @ [Some r], pc := (pc s)(i := 2)\<rparr>
         | Some (Inl err) \<Rightarrow> s\<lparr>loaded := (loaded s)(i := failedTimes s), pc := (pc s)(i := 1)\<rparr>)
      else if pc s i = 1 then
        (case result i of
           Some (Inl err) \<Rightarrow>
             if loaded s i = int spawnNum - 1
             then s\<lparr>resp_chan := resp_chan s @ [None],
                    lastErr_chan := lastErr_chan s @ [err], pc := (pc s)(i := 2)\<rparr>
             else s\<lparr>failedTimes := failedTimes s + 1, pc := (pc s)(i := 2)\<rparr>
         | other \<Rightarrow> s)
      else s)"

text \<open>
  Every goroutine runs to its end: after the given schedule the steps still open are
  taken in the order of the goroutines. The caller receives the first value sent on
  \<open>resp\<close>, and after a nil the error sent on \<open>lastErr\<close>. \<open>None\<close>: the call does not return
  (nothing is ever sent on \<open>resp\<close>, or a goroutine has panicked and ended the process).
\<close>

definition run_to_end :: "(nat \<Rightarrow> (error + Msg) option) \<Rightarrow> nat list \<Rightarrow> race" where
  "run_to_end result sched = foldl (goroutine_step result) race_init (sched @ [0, 0, 1, 1, 2, 2])"

definition received :: "race \<Rightarrow> (error + Msg) option" where
  "received s =
     (if panicked s then None
      else case resp_chan s of
             [] \<Rightarrow> None
           | Some r # rest \<Rightarrow> Some (Inr r)
           | None # rest \<Rightarrow> (case lastErr_chan s of [] \<Rightarrow> None | err # errs \<Rightarrow> Some (Inl err)))"

definition legallySpawnExchange ::
  "(nat \<Rightarrow> platform) \<Rightarrow> nat list \<Rightarrow> dnsTransport \<Rightarrow> Msg \<Rightarrow> (error + Msg) option" where
  "legallySpawnExchange pf sched dt req =
     received (run_to_end (\<lambda>i. Exchange (pf i) dt req) sched)"

text \<open>
  For the proof that a race with a successful exchange returns: the number of failed
  goroutines that have finished, and what holds of every state of such a race. No nil
  is on \<open>resp\<close>, every response on it is one an exchange returned, a goroutine that
  succeeded and finished has sent its response, and the counter is at most the number of
  failed goroutines that have finished.
\<close>

definition finished_failures :: "(nat \<Rightarrow> (error + Msg) option) \<Rightarrow> race \<Rightarrow> int" where
  "finished_failures result s =
     (\<Sum>j\<leftarrow>[0, 1, 2]. if (\<exists>e. result j = Some (Inl e)) \<and> pc s j = 2 then 1 else 0)"

definition race_inv :: "(nat \<Rightarrow> (error + Msg) option) \<Rightarrow> race \<Rightarrow> bool" where
  "race_inv result s =
     (\<not> panicked s
      \<and> list_all (\<lambda>x. \<exists>i<3. \<exists>r. x = Some r \<and> result i = Some (Inr r)) (resp_chan s)
      \<and> (\<forall>i<3. \<forall>r. result i = Some (Inr r) \<and> pc s i = 2 \<longrightarrow> Some r \<in> set (resp_chan s))
      \<and> (\<forall>i<3. pc s i \<le> 2)
      \<and> (\<forall>i<3. pc s i = 1 \<longrightarrow> (\<exists>e. result i = Some (Inl e)) \<and> loaded s i \<le> failedTimes s)
      \<and> failedTimes s \<le> finished_failures result s)"


section \<open>The DNS front\<close>

text \<open>
  The package variables the handler reads, as values (the gate has passed; a sentinel
  may still be nil). One call of the handler races at up to four of seven places; what
  the network does at each place is given per place and goroutine, with the schedule of
  the race there, so that no two calls are tied to each other.
\<close>

datatype site =
  SiteGfw | SiteObedient | SiteRetry | SiteProbeA | SiteProbeB | SiteImprove | SiteFallback

record env =
  DEFAULT_DOMAIN_MATCHER :: DomainMatcher
  IP_MATCH_CHINESE_MAINLAND :: "IP \<Rightarrow> bool"
  DNS_SUBNET_LOCAL_IP :: IP
  DNS_SUBNET_PROXY_IP :: IP
  DNSSTRANSPORT_OBEDIENT :: dnsTransport
  DNSSTRANSPORT_ABROAD :: dnsTransport
  platform_at :: "site \<Rightarrow> nat \<Rightarrow> platform"
  schedule_at :: "site \<Rightarrow> nat list"

text \<open>
  The state the handler shares with other requests is the two caches. The trace lists
  the calls the handler makes on the matcher, the transports and the caches, in order.
\<close>

datatype event =
    CallDomainGet string
  | CallMatchGFW string
  | CallMatchObedient string
  | CallRace dnsTransport Msg
  | CallDomainAdd string RR transport
  | CallIpAdd string transport

record world =
  DEFAULT_IPCACHE :: ipcache
  DEFAULT_DOMAINCACHE :: domaincache
  trace :: "event list"

text \<open>
  What the handler ends with: the message it hands to \<open>WriteMsg\<close>, the error it logs
  without replying, a race that does not return, a panic of its own, or writes to one
  subnet option from two goroutines with nothing ordering them (see \<open>shares_subnet\<close>).
\<close>

datatype outcome = Replied Msg | Failed error | NoReturn | Panicked | Unsynchronised

definition log_call :: "event \<Rightarrow> world \<Rightarrow> world" where
  "log_call e w = w\<lparr>trace := trace w @ [e]\<rparr>"

definition race_at :: "env \<Rightarrow> site \<Rightarrow> dnsTransport \<Rightarrow> Msg \<Rightarrow> (error + Msg) option" where
  "race_at e s dt req = legallySpawnExchange (platform_at e s) (schedule_at e s) dt req"

definition HasSuffix :: "string \<Rightarrow> string \<Rightarrow> bool" where
  "HasSuffix s suffix =
     (length s \<ge> length suffix \<and> drop (length s - length suffix) s = suffix)"

definition DHCP_HOST :: string where
  "DHCP_HOST = ''.DHCP'' @ [CHR 0x5C] @ '' HOST.''"

text \<open>
  \<open>req.Copy()\<close> of the DNS library makes a new message with new records, and for an OPT
  record a new slice of options, but the slice holds the same option objects: an
  \<open>EDNS0_SUBNET\<close> option of the request is one object shared by the request and every
  copy of it. \<open>MsgSetECSWithAddr\<close> on a copy writes the fields of the first subnet option of
  the OPT record it finds, so it writes to the request and to the other copies as well
  exactly when that record of the request has a subnet option; without one it appends
  to a slice of the copy alone, and the copy is a message of its own.
\<close>

definition shares_subnet :: "Msg \<Rightarrow> bool" where
  "shares_subnet m =
     (case IsEdns0 m of
        None \<Rightarrow> False
      | Some i \<Rightarrow> filter is_Subnet (opt_Option (Extra m ! i)) \<noteq> [])"

text \<open>
  The test \<open>err == nil && ans != nil\<close> on a result of the race and the answer extracted
  from it: the response with the extracted answer, or \<open>None\<close>. With an error the
  response is nil and nothing is extracted.
\<close>

definition usable :: "error + Msg \<Rightarrow> (Msg \<times> nat \<times> RR \<times> IP) option" where
  "usable r =
     (case r of
        Inl err \<Rightarrow> None
      | Inr resp \<Rightarrow>
          (case MsgExtractAnswer (Some resp) of
             None \<Rightarrow> None
           | Some x \<Rightarrow> Some (resp, x)))"

text \<open>
  The two \<open>Add\<close> calls that end a classification. The answer is a pointer into the
  response, so the owner name \<open>domaincache.Add\<close> writes shows in the response as well.
\<close>

definition add_to_caches ::
  "int \<Rightarrow> string \<Rightarrow> nat \<times> RR \<times> IP \<Rightarrow> transport \<Rightarrow> Msg \<Rightarrow> world \<Rightarrow> Msg \<times> world" where
  "add_to_caches now domain x t resp w =
     (case x of (i, answer, ip) \<Rightarrow>
        let (dc, answer') = domaincache_Add now (DEFAULT_DOMAINCACHE w) domain answer t;
            ic = ipcache_Add now (DEFAULT_IPCACHE w) (IP_String ip) t
        in (resp\<lparr>Answer := (Answer resp)[i := answer']\<rparr>,
            w\<lparr>DEFAULT_DOMAINCACHE := dc, DEFAULT_IPCACHE := ic,
              trace := trace w @ [CallDomainAdd domain answer t, CallIpAdd (IP_String ip) t]\<rparr>))"

definition matchGfw_case :: "env \<Rightarrow> int \<Rightarrow> Msg \<Rightarrow> string \<Rightarrow> world \<Rightarrow> outcome \<times> world" where
  "matchGfw_case e now req domain w =
     (let req1 = MsgSetECSWithAddr req (DNS_SUBNET_PROXY_IP e);
          w1 = log_call (CallRace (DNSSTRANSPORT_ABROAD e) req1) w
      in case race_at e SiteGfw (DNSSTRANSPORT_ABROAD e) req1 of
           None \<Rightarrow> (NoReturn, w1)
         | Some (Inl err) \<Rightarrow> (Failed err, w1)
         | Some (Inr resp) \<Rightarrow>
             (case MsgExtractAnswer (Some resp) of
                Some x \<Rightarrow>
                  (let (resp', w2) = add_to_caches now domain x TRANS_PROXY resp w1
                   in (Replied resp', w2))
              | None \<Rightarrow> (Replied resp, w1)))"

definition matchObedient_case :: "env \<Rightarrow> int \<Rightarrow> Msg \<Rightarrow> string \<Rightarrow> world \<Rightarrow> outcome \<times> world" where
  "matchObedient_case e now req domain w =
     (let w1 = log_call (CallRace (DNSSTRANSPORT_OBEDIENT e) req) w
      in case race_at e SiteObedient (DNSSTRANSPORT_OBEDIENT e) req of
           None \<Rightarrow> (NoReturn, w1)
         | Some r \<Rightarrow>
             (case usable r of
                Some (resp, x) \<Rightarrow>
                  (let (resp', w2) = add_to_caches now domain x TRANS_DIRECT resp w1
                   in (Replied resp', w2))
              | None \<Rightarrow>
                  (let req1 = MsgSetECSWithAddr req (DNS_SUBNET_LOCAL_IP e);
                       w2 = log_call (CallRace (DNSSTRANSPORT_ABROAD e) req1) w1
                   in case race_at e SiteRetry (DNSSTRANSPORT_ABROAD e) req1 of
                        None \<Rightarrow> (NoReturn, w2)
                      | Some (Inl err) \<Rightarrow> (Failed err, w2)
                      | Some (Inr resp) \<Rightarrow> (Replied resp, w2))))"

text \<open>
  The unknown domain. Probe A runs in a goroutine of its own; its result is read only
  where the code receives from the channel. The two probes are sent from copies of the
  request. When the request brings a subnet option of its own, the goroutine of probe A
  and the handler both write to that one option (the proxy sentinel and the local one)
  with nothing ordering the writes among themselves or with the exchanges that read the
  option: which address each of the six probe exchanges and the later exchange of the
  request carries is then not determined by the program, and the handler's outcome is
  \<open>Unsynchronised\<close>, with the world as it was when the branch was entered. Otherwise the
  copies are messages of their own and the request stays as it came.
\<close>

definition unknown_case :: "env \<Rightarrow> int \<Rightarrow> Msg \<Rightarrow> string \<Rightarrow> world \<Rightarrow> outcome \<times> world" where
  "unknown_case e now req domain w =
     (if shares_subnet req then (Unsynchronised, w)
      else
      let abroadQueryWithRemoteIPReq = MsgSetECSWithAddr req (DNS_SUBNET_PROXY_IP e);
          w1 = log_call (CallRace (DNSSTRANSPORT_ABROAD e) abroadQueryWithRemoteIPReq) w;
          awaitAbroadQueryWithRemoteResp =
            race_at e SiteProbeA (DNSSTRANSPORT_ABROAD e) abroadQueryWithRemoteIPReq;
          abroadQueryWithLocalIPReq = MsgSetECSWithAddr req (DNS_SUBNET_LOCAL_IP e);
          w2 = log_call (CallRace (DNSSTRANSPORT_ABROAD e) abroadQueryWithLocalIPReq) w1
      in case race_at e SiteProbeB (DNSSTRANSPORT_ABROAD e) abroadQueryWithLocalIPReq of
           None \<Rightarrow> (NoReturn, w2)
         | Some rB \<Rightarrow>
             (case (case usable rB of
                      None \<Rightarrow> None
                    | Some (respB, xB) \<Rightarrow>
                        if Rcode respB = RcodeSuccess then Some (respB, xB) else None) of
                Some (respB, iB, ansB, ipB) \<Rightarrow>
                  if IP_To4 ipB \<noteq> None \<and> IP_MATCH_CHINESE_MAINLAND e (IP_To4 ipB)
                  then
                    (let w3 = log_call (CallRace (DNSSTRANSPORT_OBEDIENT e) req) w2
                     in case race_at e SiteImprove (DNSSTRANSPORT_OBEDIENT e) req of
                          None \<Rightarrow> (NoReturn, w3)
                        | Some rO \<Rightarrow>
                            (let (resp, x) = (case usable rO of
                                                Some better \<Rightarrow> better
                                              | None \<Rightarrow> (respB, iB, ansB, ipB));
                                 (resp', w4) = add_to_caches now domain x TRANS_DIRECT resp w3
                             in (Replied resp', w4)))
                  else
                    (case awaitAbroadQueryWithRemoteResp of
                       None \<Rightarrow> (NoReturn, w2)
                     | Some rA \<Rightarrow>
                         (let (resp, x) = (case usable rA of
                                             Some better \<Rightarrow> better
                                           | None \<Rightarrow> (respB, iB, ansB, ipB));
                              (resp', w3) = add_to_caches now domain x TRANS_PROXY resp w2
                          in (Replied resp', w3)))
              | None \<Rightarrow>
                  (let w3 = log_call (CallRace (DNSSTRANSPORT_OBEDIENT e) req) w2
                   in case race_at e SiteFallback (DNSSTRANSPORT_OBEDIENT e) req of
                        None \<Rightarrow> (NoReturn, w3)
                      | Some (Inl err) \<Rightarrow> (Failed err, w3)
                      | Some (Inr resp) \<Rightarrow>
                          (case MsgExtractAnswer (Some resp) of
                             None \<Rightarrow> (Replied resp, w3)
                           | Some (i, answer, ip) \<Rightarrow>
                               (let t = (if IP_To4 ip \<noteq> None \<and> IP_MATCH_CHINESE_MAINLAND e ip
                                         then TRANS_DIRECT else TRANS_PROXY);
                                    (resp', w4) = add_to_caches now domain (i, answer, ip) t resp w3
                                in (Replied resp', w4))))))"

definition handleDnsRequest :: "env \<Rightarrow> int \<Rightarrow> Msg \<Rightarrow> world \<Rightarrow> outcome \<times> world" where
  "handleDnsRequest e now req w =
     (case Question req of
        [] \<Rightarrow> (Panicked, w)
      | q # qs \<Rightarrow>
          (let quesFqdn = q_Name q
           in if HasSuffix quesFqdn DHCP_HOST then (Replied (MsgNewReplyFromReq req []), w)
              else if quesFqdn = [] then (Panicked, w)
              else
                (let domain = butlast quesFqdn;
                     w0 = log_call (CallDomainGet domain) w
                 in (case domaincache_Get now (DEFAULT_DOMAINCACHE w) domain of
                       Some item \<Rightarrow> (Replied (MsgNewReplyFromReq req [ans item]), w0)
                     | None \<Rightarrow>
                         (let matchGfw = MatchGFW (DEFAULT_DOMAIN_MATCHER e) domain;
                              w1 = log_call (CallMatchGFW domain) w0;
                              matchObedient =
                                (if \<not> matchGfw
                                 then MatchObedient (DEFAULT_DOMAIN_MATCHER e) domain
                                 else False);
                              w2 = (if \<not> matchGfw
                                    then log_call (CallMatchObedient domain) w1 else w1)
                          in if matchGfw then matchGfw_case e now req domain w2
                             else if matchObedient then matchObedient_case e now req domain w2
                             else unknown_case e now req domain w2)))))"

section \<open>Example inputs\<close>

text \<open>
  The rules and upstreams of the end-to-end scenarios: the blacklist holds
  \<open>example.net\<close>, the whitelist \<open>cn.example\<close>, the domestic networks are \<open>1.0.0.0/8\<close>;
  an upstream either answers every query with the given records or fails.
\<close>

definition ex_A :: "string \<Rightarrow> byte list \<Rightarrow> RR" where
  "ex_A name ip =
     RR_A \<lparr>hdr_Name = name, Rrtype = TypeA, Class = ClassINET, Ttl = 60, Rdlength = 4\<rparr> (Some ip)"

definition ex_query :: "string \<Rightarrow> Msg" where
  "ex_query name =
     new_Msg\<lparr>Id := 7, RecursionDesired := True,
             Question := [\<lparr>q_Name = name, Qtype = TypeA, Qclass = ClassINET\<rparr>]\<rparr>"

definition ex_answers :: "RR list \<Rightarrow> platform" where
  "ex_answers rrs =
     \<lparr>RoundTrip = (\<lambda>vs. Inl ''no route''),
      dial_write_read = (\<lambda>dt req. Inr (MsgNewReplyFromReq req rrs)),
      ParseIP = (\<lambda>s. None), TypeToRR_has = (\<lambda>t. False)\<rparr>"

definition ex_fails :: platform where
  "ex_fails =
     \<lparr>RoundTrip = (\<lambda>vs. Inl ''no route''),
      dial_write_read = (\<lambda>dt req. Inl ''i/o timeout''),
      ParseIP = (\<lambda>s. None), TypeToRR_has = (\<lambda>t. False)\<rparr>"

definition ex_env :: "(site \<Rightarrow> platform) \<Rightarrow> env" where
  "ex_env pf =
     \<lparr>DEFAULT_DOMAIN_MATCHER =
        \<lparr>MatchGFW = (\<lambda>d. d = ''example.net'' \<or> HasSuffix d ''.example.net''),
         MatchObedient = (\<lambda>d. d = ''cn.example'' \<or> HasSuffix d ''.cn.example'')\<rparr>,
      IP_MATCH_CHINESE_MAINLAND =
        (\<lambda>ip. case IP_To4 ip of Some (b # bs) \<Rightarrow> b = 1 | other \<Rightarrow> False),
      DNS_SUBNET_LOCAL_IP = Some [114, 114, 114, 114],
      DNS_SUBNET_PROXY_IP = Some [8, 8, 8, 8],
      DNSSTRANSPORT_OBEDIENT =
        \<lparr>nameserver = ''114.114.114.114:53'', net = ''udp'', proxy = False\<rparr>,
      DNSSTRANSPORT_ABROAD = \<lparr>nameserver = ''8.8.8.8:53'', net = ''tcp'', proxy = True\<rparr>,
      platform_at = (\<lambda>s i. pf s),
      schedule_at = (\<lambda>s. [])\<rparr>"

text \<open>The same with the order in which the goroutines of each race take their steps.\<close>

definition ex_env_sched :: "(site \<Rightarrow> platform) \<Rightarrow> (site \<Rightarrow> nat list) \<Rightarrow> env" where
  "ex_env_sched pf sch = (ex_env pf)\<lparr>schedule_at := sch\<rparr>"


definition ex_world :: world where
  "ex_world = \<lparr>DEFAULT_IPCACHE = NewIpcache 300 600, DEFAULT_DOMAINCACHE = NewDomaincache 300 600,
               trace = []\<rparr>"

definition ex_echo :: platform where
  "ex_echo =
     \<lparr>RoundTrip = (\<lambda>vs. Inl (join_with ''&'' (map (\<lambda>(k, v). k @ ''='' @ v) vs))),
      dial_write_read = (\<lambda>dt req. Inl ''i/o timeout''),
      ParseIP = (\<lambda>s. None), TypeToRR_has = (\<lambda>t. False)\<rparr>"

definition ex_doh :: "RespRepr \<Rightarrow> platform" where
  "ex_doh d =
     \<lparr>RoundTrip = (\<lambda>vs. Inr d),
      dial_write_read = (\<lambda>dt req. Inl ''i/o timeout''),
      ParseIP = (\<lambda>s. None), TypeToRR_has = (\<lambda>t. False)\<rparr>"

definition ex_nxdomain :: RespRepr where
  "ex_nxdomain =
     \<lparr>Status = 3, TC = False, RD = True, RA = True, AD = False, CD = False,
      resp_Question = [\<lparr>g_Name = ''nosuch.example.'', g_Type = 1\<rparr>],
      resp_Answer = [], Authority = [], Additional = [],
      Edns_client_subnet = [], Comment = []\<rparr>"

definition ex_two_subnets :: Msg where
  "ex_two_subnets =
     (ex_query ''example.com.'')\<lparr>Extra :=
        [RR_OPT \<lparr>hdr_Name = ''.'', Rrtype = TypeOPT, Class = 4096, Ttl = 0, Rdlength = 0\<rparr>
           [Subnet \<lparr>Code = EDNS0SUBNET, Family = 1, SourceNetmask = 24, SourceScope = 0,
                    Address = Some [10, 0, 0, 0]\<rparr>,
            Subnet \<lparr>Code = EDNS0SUBNET, Family = 1, SourceNetmask = 24, SourceScope = 0,
                    Address = Some [10, 0, 1, 0]\<rparr>]]\<rparr>"

section \<open>The redirect of a SOCKS5 request\<close>

text \<open>
  C9. For every address, IPv4 or not, \<open>setRedirect\<close> writes the textual form of the
  address as the target host and the IPv4 tag as the address type; nothing else of the
  request changes.
\<close>

theorem setRedirect_always_IPv4:
  "setRedirect r ip = r\<lparr>req_Addr := (req_Addr r)\<lparr>Type := AddrIPv4, Host := IP_String ip\<rparr>\<rparr>
   \<and> getAddrType (setRedirect r ip) = AddrIPv4
   \<and> getHostName (setRedirect r ip) = IP_String ip"
  by (simp add: setRedirect_def getAddrType_def getHostName_def)

text \<open>The same on an IPv6 address that has no 4-byte form.\<close>

lemma IP_String_IPv6_example:
  "IP_String (Some [0x20, 0x01, 0x0d, 0xb8, 0, 0, 0, 0, 0, 0, 0, 0, 0, 0, 0, 1]) = ''2001:db8::1''"
  by (simp add: IP_String_def IP_To4_def IP_len_def Let_def appendHex.simps hexDigit_def)

lemma setRedirect_IPv6_example:
  "IP_To4 (Some [0x20, 0x01, 0x0d, 0xb8, 0, 0, 0, 0, 0, 0, 0, 0, 0, 0, 0, 1]) = None
   \<and> setRedirect \<lparr>Cmd = 1, req_Addr = \<lparr>Type = AddrDomain, Host = ''example.com'', Port = 443\<rparr>\<rparr>
         (Some [0x20, 0x01, 0x0d, 0xb8, 0, 0, 0, 0, 0, 0, 0, 0, 0, 0, 0, 1])
       = \<lparr>Cmd = 1, req_Addr = \<lparr>Type = AddrIPv4, Host = ''2001:db8::1'', Port = 443\<rparr>\<rparr>"
  by (simp add: IP_String_IPv6_example setRedirect_def IP_To4_def)


section \<open>The gate\<close>

text \<open>
  What a fresh validator answers: the proxy sentinel is not among the things it tests.
\<close>

lemma validate_fresh:
  "fst (validate g newGlobalsValidator) =
     (g_DEFAULT_IPCACHE_inner g \<noteq> None \<and> g_DEFAULT_DOMAINCACHE_inner g \<noteq> None \<and>
      g_DEFAULT_DOMAIN_MATCHER g \<noteq> None \<and> g_IP_MATCH_CHINESE_MAINLAND g \<noteq> None \<and>
      g_DNS_SUBNET_LOCAL_IP g \<noteq> None \<and>
      g_DNSSTRANSPORT_OBEDIENT g \<noteq> None \<and> g_DNSSTRANSPORT_ABROAD g \<noteq> None)"
  by (auto simp add: validate_def newGlobalsValidator_def Let_def)

text \<open>
  C1. The gate tests the local sentinel twice and the proxy sentinel never: after
  \<open>InitGlobals\<close> with a nil proxy sentinel and everything else set, a fresh validator
  answers true and both fronts go on to serve.
\<close>

theorem validate_misses_PROXY_IP:
  "validate (InitGlobals (Some (NewIpcache 300 600)) (Some (NewDomaincache 300 600))
              (Some \<lparr>MatchGFW = (\<lambda>d. False), MatchObedient = (\<lambda>d. False)\<rparr>)
              (Some (\<lambda>ip. False)) (Some [114, 114, 114, 114]) None
              (Some \<lparr>nameserver = ''114.114.114.114:53'', net = ''udp'', proxy = False\<rparr>)
              (Some \<lparr>nameserver = ''8.8.8.8:53'', net = ''tcp'', proxy = True\<rparr>))
            newGlobalsValidator
     = (True, \<lparr>once_done = True, ok = True\<rparr>)
   \<and> fst (ServeDNS (InitGlobals (Some (NewIpcache 300 600)) (Some (NewDomaincache 300 600))
              (Some \<lparr>MatchGFW = (\<lambda>d. False), MatchObedient = (\<lambda>d. False)\<rparr>)
              (Some (\<lambda>ip. False)) (Some [114, 114, 114, 114]) None
              (Some \<lparr>nameserver = ''114.114.114.114:53'', net = ''udp'', proxy = False\<rparr>)
              (Some \<lparr>nameserver = ''8.8.8.8:53'', net = ''tcp'', proxy = True\<rparr>))
            newGlobalsValidator '':53'') = Serving
   \<and> fst (ServeProxy (InitGlobals (Some (NewIpcache 300 600)) (Some (NewDomaincache 300 600))
              (Some \<lparr>MatchGFW = (\<lambda>d. False), MatchObedient = (\<lambda>d. False)\<rparr>)
              (Some (\<lambda>ip. False)) (Some [114, 114, 114, 114]) None
              (Some \<lparr>nameserver = ''114.114.114.114:53'', net = ''udp'', proxy = False\<rparr>)
              (Some \<lparr>nameserver = ''8.8.8.8:53'', net = ''tcp'', proxy = True\<rparr>))
            newGlobalsValidator '':1080'') = Serving"
  by (simp add: validate_def ServeDNS_def ServeProxy_def InitGlobals_def newGlobalsValidator_def)


section \<open>Setting ECS on a message\<close>

lemma fill_ecs_idem: "fill_ecs a (fill_ecs a s) = fill_ecs a s"
  by (simp add: fill_ecs_def)

lemma set_first_subnet_idem:
  "set_first_subnet a (set_first_subnet a os) = set_first_subnet a os"
  by (induction a os rule: set_first_subnet.induct) (simp_all add: fill_ecs_idem)

lemma IsEdns0_from_Some: "IsEdns0_from xs n = Some i \<Longrightarrow> i < n \<and> is_OPT (xs ! i)"
  by (induction n) (auto split: if_splits)

lemma IsEdns0_from_cong:
  "n \<le> length xs \<Longrightarrow> length ys = length xs \<Longrightarrow> (\<And>k. k < n \<Longrightarrow> is_OPT (ys ! k) = is_OPT (xs ! k))
   \<Longrightarrow> IsEdns0_from ys n = IsEdns0_from xs n"
  by (induction n) auto

lemma is_OPT_set_opt_Option [simp]: "is_OPT (set_opt_Option os r) = is_OPT r"
  by (cases r) auto

lemma opt_Option_set_opt_Option: "is_OPT r \<Longrightarrow> opt_Option (set_opt_Option os r) = os"
  by (cases r) auto

lemma set_opt_Option_twice [simp]: "set_opt_Option os (set_opt_Option os' r) = set_opt_Option os r"
  by (cases r) auto

lemma IsEdns0_update:
  assumes "IsEdns0_from xs (length xs) = Some i"
  shows "IsEdns0_from (xs[i := set_opt_Option os (xs ! i)]) (length xs) = Some i"
proof -
  have "i < length xs"
    using IsEdns0_from_Some[OF assms] by simp
  then have "IsEdns0_from (xs[i := set_opt_Option os (xs ! i)]) (length xs) = IsEdns0_from xs (length xs)"
    by (intro IsEdns0_from_cong) (simp_all add: nth_list_update)
  with assms show ?thesis by simp
qed

lemma MsgSetECSWithAddr_idem:
  "MsgSetECSWithAddr (MsgSetECSWithAddr m a) a = MsgSetECSWithAddr m a"
proof (cases "a = None")
  case True then show ?thesis by (simp add: MsgSetECSWithAddr_def)
next
  case False
  then obtain bs where a: "a = Some bs" by auto
  show ?thesis
  proof (cases "IsEdns0 m")
    case None
    let ?o = "set_opt_Option (set_first_subnet a []) new_OPT"
    have 1: "MsgSetECSWithAddr m a = m\<lparr>Extra := Extra m @ [?o]\<rparr>"
      using a None by (simp add: MsgSetECSWithAddr_def new_OPT_def Let_def)
    have 2: "IsEdns0 (m\<lparr>Extra := Extra m @ [?o]\<rparr>) = Some (length (Extra m))"
      by (simp add: IsEdns0_def new_OPT_def)
    show ?thesis
      unfolding 1 using a 2
      by (simp add: MsgSetECSWithAddr_def new_OPT_def set_first_subnet_idem fill_ecs_idem Let_def)
  next
    case (Some i)
    then have i: "i < length (Extra m)" "is_OPT (Extra m ! i)"
      using IsEdns0_from_Some[of "Extra m" "length (Extra m)" i] by (auto simp: IsEdns0_def)
    let ?o = "set_opt_Option (set_first_subnet a (opt_Option (Extra m ! i))) (Extra m ! i)"
    have 1: "MsgSetECSWithAddr m a = m\<lparr>Extra := (Extra m)[i := ?o]\<rparr>"
      using a Some by (simp add: MsgSetECSWithAddr_def Let_def)
    have 2: "IsEdns0 (m\<lparr>Extra := (Extra m)[i := ?o]\<rparr>) = Some i"
      using Some IsEdns0_update[of "Extra m" i] by (simp add: IsEdns0_def)
    show ?thesis
      unfolding 1 using a 2 i
      by (simp add: MsgSetECSWithAddr_def opt_Option_set_opt_Option set_first_subnet_idem Let_def)
  qed
qed

lemma is_ecs_for_fill: "is_ecs_for a (fill_ecs a s)"
  by (simp add: is_ecs_for_def fill_ecs_def)

lemma first_subnet_set: "\<exists>s. first_subnet (set_first_subnet a os) = Some (fill_ecs a s)"
  by (induction a os rule: set_first_subnet.induct) auto

lemma filter_subnet_set:
  "length (filter is_Subnet os) \<le> 1 \<Longrightarrow>
   \<exists>s. filter is_Subnet (set_first_subnet a os) = [Subnet (fill_ecs a s)]"
  by (induction a os rule: set_first_subnet.induct) auto

lemma IsEdns0_from_None: "IsEdns0_from xs n = None \<longleftrightarrow> (\<forall>k<n. \<not> is_OPT (xs ! k))"
  by (induction n) (auto simp: less_Suc_eq)

lemma IsEdns0_None_filter: "IsEdns0 m = None \<longleftrightarrow> filter is_OPT (Extra m) = []"
  by (simp add: IsEdns0_def IsEdns0_from_None filter_empty_conv all_set_conv_all_nth)

lemma filter_update_single:
  assumes "length (filter P xs) \<le> 1" "i < length xs" "P (xs ! i)" "P r"
  shows "filter P (xs[i := r]) = [r]"
proof -
  have xs: "xs = take i xs @ xs ! i # drop (Suc i) xs"
    using assms(2) by (simp add: id_take_nth_drop)
  have "length (filter P (take i xs @ xs ! i # drop (Suc i) xs)) \<le> 1"
    using assms(1) xs by simp
  then have "filter P (take i xs) = []" "filter P (drop (Suc i) xs) = []"
    using assms(3) by simp_all
  moreover have "xs[i := r] = take i xs @ r # drop (Suc i) xs"
    using assms(2) by (simp add: upd_conv_take_nth_drop)
  ultimately show ?thesis using assms(4) by simp
qed

lemma MsgSetECSWithAddr_None: "MsgSetECSWithAddr m None = m"
  by (simp add: MsgSetECSWithAddr_def)

lemma MsgSetECSWithAddr_carries:
  assumes "a \<noteq> None"
  shows "carries_ECS (MsgSetECSWithAddr m a) a"
proof -
  from assms obtain bs where a: "a = Some bs" by auto
  show ?thesis
  proof (cases "IsEdns0 m")
    case None
    let ?o = "set_opt_Option (set_first_subnet a []) new_OPT"
    have 1: "MsgSetECSWithAddr m a = m\<lparr>Extra := Extra m @ [?o]\<rparr>"
      using a None by (simp add: MsgSetECSWithAddr_def new_OPT_def Let_def)
    have 2: "IsEdns0 (m\<lparr>Extra := Extra m @ [?o]\<rparr>) = Some (length (Extra m))"
      by (simp add: IsEdns0_def new_OPT_def)
    show ?thesis
      unfolding 1 carries_ECS_def 2
      by (simp add: new_OPT_def is_ecs_for_fill)
  next
    case (Some i)
    then have i: "i < length (Extra m)" "is_OPT (Extra m ! i)"
      using IsEdns0_from_Some[of "Extra m" "length (Extra m)" i] by (auto simp: IsEdns0_def)
    let ?o = "set_opt_Option (set_first_subnet a (opt_Option (Extra m ! i))) (Extra m ! i)"
    have 1: "MsgSetECSWithAddr m a = m\<lparr>Extra := (Extra m)[i := ?o]\<rparr>"
      using a Some by (simp add: MsgSetECSWithAddr_def Let_def)
    have 2: "IsEdns0 (m\<lparr>Extra := (Extra m)[i := ?o]\<rparr>) = Some i"
      using Some IsEdns0_update[of "Extra m" i] by (simp add: IsEdns0_def)
    obtain s where s: "first_subnet (set_first_subnet a (opt_Option (Extra m ! i))) = Some (fill_ecs a s)"
      using first_subnet_set by blast
    show ?thesis
      unfolding 1 carries_ECS_def 2 using i s
      by (simp add: opt_Option_set_opt_Option is_ecs_for_fill)
  qed
qed

lemma MsgSetECSWithAddr_single:
  assumes "a \<noteq> None" "at_most_one_ECS m"
  shows "single_ECS (MsgSetECSWithAddr m a) a"
proof -
  from assms obtain bs where a: "a = Some bs" by auto
  show ?thesis
  proof (cases "IsEdns0 m")
    case None
    let ?o = "set_opt_Option (set_first_subnet a []) new_OPT"
    have 1: "MsgSetECSWithAddr m a = m\<lparr>Extra := Extra m @ [?o]\<rparr>"
      using a None by (simp add: MsgSetECSWithAddr_def new_OPT_def Let_def)
    have 2: "filter is_OPT (Extra m) = []"
      using None by (simp add: IsEdns0_None_filter)
    show ?thesis
      unfolding 1 single_ECS_def
      by (simp add: 2 new_OPT_def is_ecs_for_fill)
  next
    case (Some i)
    then have i: "i < length (Extra m)" "is_OPT (Extra m ! i)"
      using IsEdns0_from_Some[of "Extra m" "length (Extra m)" i] by (auto simp: IsEdns0_def)
    let ?os = "set_first_subnet a (opt_Option (Extra m ! i))"
    let ?o = "set_opt_Option ?os (Extra m ! i)"
    have 1: "MsgSetECSWithAddr m a = m\<lparr>Extra := (Extra m)[i := ?o]\<rparr>"
      using a Some by (simp add: MsgSetECSWithAddr_def Let_def)
    have 2: "filter is_OPT ((Extra m)[i := ?o]) = [?o]"
      using assms(2) i by (intro filter_update_single) (simp_all add: at_most_one_ECS_def)
    have "length (filter is_Subnet (opt_Option (Extra m ! i))) \<le> 1"
      using assms(2) i by (simp add: at_most_one_ECS_def list_all_length)
    then obtain s where s: "filter is_Subnet ?os = [Subnet (fill_ecs a s)]"
      using filter_subnet_set by blast
    show ?thesis
      unfolding 1 single_ECS_def using i s
      by (simp add: 2 opt_Option_set_opt_Option is_ecs_for_fill)
  qed
qed


text \<open>
  What the operation writes, said with the option of the specification: the option set
  is that option whatever the option found held before, and the options of the record
  are the old ones with the first subnet option replaced, or with one appended.
\<close>

lemma fill_ecs_eq: "fill_ecs a s = ecs_option a"
  by (cases s) (simp add: fill_ecs_def ecs_option_def)

lemma with_subnet_simps:
  "with_subnet a [] = [Subnet (ecs_option a)]"
  "with_subnet a (Subnet s # os) = Subnet (ecs_option a) # os"
  "with_subnet a (OtherOption c d # os) = OtherOption c d # with_subnet a os"
proof -
  show "with_subnet a [] = [Subnet (ecs_option a)]"
    by (simp add: with_subnet_def)
  show "with_subnet a (Subnet s # os) = Subnet (ecs_option a) # os"
    by (simp add: with_subnet_def)
  show "with_subnet a (OtherOption c d # os) = OtherOption c d # with_subnet a os"
    by (cases "dropWhile (\<lambda>x. \<not> is_Subnet x) os")
       (simp_all add: with_subnet_def del: dropWhile_eq_Nil_conv)
qed

lemma set_first_subnet_with: "set_first_subnet a os = with_subnet a os"
  by (induction a os rule: set_first_subnet.induct)
     (simp_all add: with_subnet_simps fill_ecs_eq)

lemma IsEdns0_from_last:
  "IsEdns0_from xs n = Some i \<Longrightarrow> i < j \<Longrightarrow> j < n \<Longrightarrow> \<not> is_OPT (xs ! j)"
  by (induction n) (auto split: if_splits simp: less_Suc_eq)

lemma MsgSetECSWithAddr_without_OPT:
  assumes "a \<noteq> None" "IsEdns0 m = None"
  shows "MsgSetECSWithAddr m a =
           m\<lparr>Extra := Extra m @
              [RR_OPT \<lparr>hdr_Name = ''.'', Rrtype = TypeOPT, Class = 0, Ttl = 0, Rdlength = 0\<rparr>
                 [Subnet (ecs_option a)]]\<rparr>"
proof -
  from assms obtain bs where a: "a = Some bs" by auto
  show ?thesis
    using a assms(2)
    by (simp add: MsgSetECSWithAddr_def new_OPT_def Let_def fill_ecs_eq)
qed

lemma MsgSetECSWithAddr_with_OPT:
  assumes "a \<noteq> None" "IsEdns0 m = Some i" "Extra m ! i = RR_OPT h os"
  shows "MsgSetECSWithAddr m a = m\<lparr>Extra := (Extra m)[i := RR_OPT h (with_subnet a os)]\<rparr>"
proof -
  from assms obtain bs where a: "a = Some bs" by auto
  show ?thesis
    using a assms(2,3)
    by (simp add: MsgSetECSWithAddr_def Let_def set_first_subnet_with)
qed

lemma IsEdns0_Some_OPT:
  assumes "IsEdns0 m = Some i"
  shows "i < length (Extra m) \<and> (\<exists>h os. Extra m ! i = RR_OPT h os)
         \<and> (\<forall>j. i < j \<and> j < length (Extra m) \<longrightarrow> \<not> is_OPT (Extra m ! j))"
proof -
  have i: "i < length (Extra m)" "is_OPT (Extra m ! i)"
    using assms IsEdns0_from_Some[of "Extra m" "length (Extra m)" i] by (auto simp: IsEdns0_def)
  have "\<exists>h os. Extra m ! i = RR_OPT h os"
    using i(2) by (cases "Extra m ! i") auto
  moreover have "\<forall>j. i < j \<and> j < length (Extra m) \<longrightarrow> \<not> is_OPT (Extra m ! j)"
    using assms IsEdns0_from_last[of "Extra m" "length (Extra m)" i] by (auto simp: IsEdns0_def)
  ultimately show ?thesis using i(1) by simp
qed

text \<open>
  C8, as amended. Setting ECS twice with the same address gives the message that
  setting it once gives, for every message and address. With a nil address the message
  is left as it is. With any other address only Additional changes. When the message has
  no OPT record, one is appended to Additional, holding the one subnet option for the
  address. Otherwise the OPT record used is the last one of Additional: it keeps its
  place and its header, every other record of Additional stays as it is, and its options
  are the old ones with the first subnet option replaced by the one for the address
  (appended when there was none), every other option and every later subnet option
  staying where it was. The subnet option for the address has family 1 and prefix 32
  when the address is IPv4, family 2 and prefix 128 otherwise, scope 0 and the address.
  So the OPT record of the result has that option as its first subnet option; and when
  the message had at most one OPT record and no more than one subnet option in a record,
  the result has exactly one OPT record with exactly one subnet option.
\<close>

theorem MsgSetECSWithAddr_idempotent:
  "MsgSetECSWithAddr (MsgSetECSWithAddr m a) a = MsgSetECSWithAddr m a
   \<and> MsgSetECSWithAddr m None = m
   \<and> (a \<noteq> None \<longrightarrow> carries_ECS (MsgSetECSWithAddr m a) a)
   \<and> (a \<noteq> None \<and> at_most_one_ECS m \<longrightarrow> single_ECS (MsgSetECSWithAddr m a) a)
   \<and> (a \<noteq> None \<and> IsEdns0 m = None \<longrightarrow>
        filter is_OPT (Extra m) = []
        \<and> MsgSetECSWithAddr m a =
            m\<lparr>Extra := Extra m @
               [RR_OPT \<lparr>hdr_Name = ''.'', Rrtype = TypeOPT, Class = 0, Ttl = 0, Rdlength = 0\<rparr>
                  [Subnet (ecs_option a)]]\<rparr>)
   \<and> (a \<noteq> None \<and> IsEdns0 m = Some i \<longrightarrow>
        i < length (Extra m)
        \<and> (\<forall>j. i < j \<and> j < length (Extra m) \<longrightarrow> \<not> is_OPT (Extra m ! j))
        \<and> (\<exists>h os. Extra m ! i = RR_OPT h os
              \<and> MsgSetECSWithAddr m a =
                  m\<lparr>Extra := (Extra m)[i := RR_OPT h (with_subnet a os)]\<rparr>))"
proof -
  have 5: "filter is_OPT (Extra m) = []
        \<and> MsgSetECSWithAddr m a =
            m\<lparr>Extra := Extra m @
               [RR_OPT \<lparr>hdr_Name = ''.'', Rrtype = TypeOPT, Class = 0, Ttl = 0, Rdlength = 0\<rparr>
                  [Subnet (ecs_option a)]]\<rparr>"
    if "a \<noteq> None" "IsEdns0 m = None"
    using that by (simp add: MsgSetECSWithAddr_without_OPT IsEdns0_None_filter)
  have 6: "i < length (Extra m)
        \<and> (\<forall>j. i < j \<and> j < length (Extra m) \<longrightarrow> \<not> is_OPT (Extra m ! j))
        \<and> (\<exists>h os. Extra m ! i = RR_OPT h os
              \<and> MsgSetECSWithAddr m a =
                  m\<lparr>Extra := (Extra m)[i := RR_OPT h (with_subnet a os)]\<rparr>)"
    if "a \<noteq> None" "IsEdns0 m = Some i"
  proof -
    from IsEdns0_Some_OPT[OF that(2)] obtain h os where
      i: "i < length (Extra m)" and r: "Extra m ! i = RR_OPT h os"
      and last: "\<forall>j. i < j \<and> j < length (Extra m) \<longrightarrow> \<not> is_OPT (Extra m ! j)"
      by blast
    from MsgSetECSWithAddr_with_OPT[OF that r] i r last show ?thesis by blast
  qed
  show ?thesis
    using 5 6
    by (simp add: MsgSetECSWithAddr_idem MsgSetECSWithAddr_None MsgSetECSWithAddr_carries
          MsgSetECSWithAddr_single)
qed

theorem MsgSetECSWithAddr_idempotent_witness:
  "MsgSetECSWithAddr (MsgSetECSWithAddr (ex_query ''example.com.'') (Some [1, 2, 3, 4])) (Some [1, 2, 3, 4])
     = MsgSetECSWithAddr (ex_query ''example.com.'') (Some [1, 2, 3, 4])
   \<and> carries_ECS (MsgSetECSWithAddr (ex_query ''example.com.'') (Some [1, 2, 3, 4])) (Some [1, 2, 3, 4])
   \<and> single_ECS (MsgSetECSWithAddr (ex_query ''example.com.'') (Some [1, 2, 3, 4])) (Some [1, 2, 3, 4])
   \<and> MsgSetECSWithAddr (ex_query ''example.com.'') (Some [1, 2, 3, 4])
       = (ex_query ''example.com.'')\<lparr>Extra :=
           [RR_OPT \<lparr>hdr_Name = ''.'', Rrtype = TypeOPT, Class = 0, Ttl = 0, Rdlength = 0\<rparr>
              [Subnet \<lparr>Code = EDNS0SUBNET, Family = 1, SourceNetmask = 32, SourceScope = 0,
                       Address = Some [1, 2, 3, 4]\<rparr>]]\<rparr>
   \<and> MsgSetECSWithAddr ex_two_subnets (Some [1, 2, 3, 4])
       = ex_two_subnets\<lparr>Extra :=
           [RR_OPT \<lparr>hdr_Name = ''.'', Rrtype = TypeOPT, Class = 4096, Ttl = 0, Rdlength = 0\<rparr>
              [Subnet \<lparr>Code = EDNS0SUBNET, Family = 1, SourceNetmask = 32, SourceScope = 0,
                       Address = Some [1, 2, 3, 4]\<rparr>,
               Subnet \<lparr>Code = EDNS0SUBNET, Family = 1, SourceNetmask = 24, SourceScope = 0,
                       Address = Some [10, 0, 1, 0]\<rparr>]]\<rparr>"
proof -
  have 1: "Some [1, 2, 3, 4 :: byte] \<noteq> None" by simp
  have 2: "at_most_one_ECS (ex_query ''example.com.'')"
    by (simp add: at_most_one_ECS_def ex_query_def new_Msg_def)
  have 3: "IsEdns0 (ex_query ''example.com.'') = None"
    by (simp add: IsEdns0_def ex_query_def new_Msg_def)
  have 4: "Extra (ex_query ''example.com.'') = []"
    by (simp add: ex_query_def new_Msg_def)
  have 5: "IsEdns0 ex_two_subnets = Some 0"
    by (simp add: IsEdns0_def ex_two_subnets_def)
  have 6: "Extra ex_two_subnets =
           [RR_OPT \<lparr>hdr_Name = ''.'', Rrtype = TypeOPT, Class = 4096, Ttl = 0, Rdlength = 0\<rparr>
              [Subnet \<lparr>Code = EDNS0SUBNET, Family = 1, SourceNetmask = 24, SourceScope = 0,
                       Address = Some [10, 0, 0, 0]\<rparr>,
               Subnet \<lparr>Code = EDNS0SUBNET, Family = 1, SourceNetmask = 24, SourceScope = 0,
                       Address = Some [10, 0, 1, 0]\<rparr>]]"
    by (simp add: ex_two_subnets_def)
  have 7: "ecs_option (Some [1, 2, 3, 4]) =
             \<lparr>Code = EDNS0SUBNET, Family = 1, SourceNetmask = 32, SourceScope = 0,
              Address = Some [1, 2, 3, 4]\<rparr>"
    by (simp add: ecs_option_def IP_To4_def)
  note t1 = MsgSetECSWithAddr_idempotent [of "ex_query ''example.com.''" "Some [1, 2, 3, 4]" 0]
  note t2 = MsgSetECSWithAddr_idempotent [of ex_two_subnets "Some [1, 2, 3, 4]" 0]
  have a: "MsgSetECSWithAddr (MsgSetECSWithAddr (ex_query ''example.com.'') (Some [1, 2, 3, 4])) (Some [1, 2, 3, 4])
     = MsgSetECSWithAddr (ex_query ''example.com.'') (Some [1, 2, 3, 4])"
    using t1 by (rule conjunct1)
  have b: "carries_ECS (MsgSetECSWithAddr (ex_query ''example.com.'') (Some [1, 2, 3, 4])) (Some [1, 2, 3, 4])"
    using t1 1 by blast
  have c: "single_ECS (MsgSetECSWithAddr (ex_query ''example.com.'') (Some [1, 2, 3, 4])) (Some [1, 2, 3, 4])"
    using t1 1 2 by blast
  have "MsgSetECSWithAddr (ex_query ''example.com.'') (Some [1, 2, 3, 4]) =
            (ex_query ''example.com.'')\<lparr>Extra := Extra (ex_query ''example.com.'') @
               [RR_OPT \<lparr>hdr_Name = ''.'', Rrtype = TypeOPT, Class = 0, Ttl = 0, Rdlength = 0\<rparr>
                  [Subnet (ecs_option (Some [1, 2, 3, 4]))]]\<rparr>"
    using t1 1 3 by blast
  then have d: "MsgSetECSWithAddr (ex_query ''example.com.'') (Some [1, 2, 3, 4])
       = (ex_query ''example.com.'')\<lparr>Extra :=
           [RR_OPT \<lparr>hdr_Name = ''.'', Rrtype = TypeOPT, Class = 0, Ttl = 0, Rdlength = 0\<rparr>
              [Subnet \<lparr>Code = EDNS0SUBNET, Family = 1, SourceNetmask = 32, SourceScope = 0,
                       Address = Some [1, 2, 3, 4]\<rparr>]]\<rparr>"
    by (simp add: 4 7)
  have "\<exists>h os. Extra ex_two_subnets ! 0 = RR_OPT h os
              \<and> MsgSetECSWithAddr ex_two_subnets (Some [1, 2, 3, 4]) =
                  ex_two_subnets\<lparr>Extra := (Extra ex_two_subnets)
                     [0 := RR_OPT h (with_subnet (Some [1, 2, 3, 4]) os)]\<rparr>"
    using t2 1 5 by blast
  then have e: "MsgSetECSWithAddr ex_two_subnets (Some [1, 2, 3, 4])
       = ex_two_subnets\<lparr>Extra :=
           [RR_OPT \<lparr>hdr_Name = ''.'', Rrtype = TypeOPT, Class = 4096, Ttl = 0, Rdlength = 0\<rparr>
              [Subnet \<lparr>Code = EDNS0SUBNET, Family = 1, SourceNetmask = 32, SourceScope = 0,
                       Address = Some [1, 2, 3, 4]\<rparr>,
               Subnet \<lparr>Code = EDNS0SUBNET, Family = 1, SourceNetmask = 24, SourceScope = 0,
                       Address = Some [10, 0, 1, 0]\<rparr>]]\<rparr>"
    by (auto simp add: 6 7 with_subnet_simps)
  show ?thesis
    by (intro conjI a b c d e)
qed

text \<open>
  C8 as stated fails: a request whose OPT record holds two subnet options keeps the
  second one, and a nil address leaves a message without OPT record as it is.
\<close>

theorem MsgSetECSWithAddr_single_counterexample:
  "\<not> single_ECS (MsgSetECSWithAddr ex_two_subnets (Some [1, 2, 3, 4])) (Some [1, 2, 3, 4])
   \<and> \<not> single_ECS (MsgSetECSWithAddr (ex_query ''example.com.'') None) None"
  by (simp add: single_ECS_def MsgSetECSWithAddr_def ex_two_subnets_def ex_query_def new_Msg_def
        IsEdns0_def Let_def)


section \<open>Adding to a cache\<close>

lemma Cache_Get_after_set:
  "Cache_Get now (Cache_set now c k v DefaultExpiration) k = Some v"
  by (simp add: Cache_Get_def Cache_set_def Expired_def Let_def)

lemma Cache_Add_hit: "Cache_Get now c k = Some old \<Longrightarrow> Cache_Add now c k v d = c"
  by (simp add: Cache_Add_def)

lemma Cache_Add_miss:
  "Cache_Get now c k = None \<Longrightarrow> Cache_Get now (Cache_Add now c k v DefaultExpiration) k = Some v"
  by (simp add: Cache_Add_def Cache_Get_after_set)


lemma Cache_Add_eq:
  "Cache_Add now c k v DefaultExpiration =
     (case Cache_Get now c k of
        Some old \<Rightarrow> c
      | None \<Rightarrow> c\<lparr>items := (items c)(k := Some (v, fresh_expiry now c))\<rparr>)"
  by (simp add: Cache_Add_def Cache_set_def fresh_expiry_def Let_def split: option.split)

lemma Cache_Get_stored:
  "Cache_Get t (c\<lparr>items := (items c)(k := Some (v, e))\<rparr>) k =
     (if Expired t e then None else Some v)"
  by (simp add: Cache_Get_def)


lemma domaincache_Add_fst:
  "fst (domaincache_Add now dc d a t) =
     (if d = [] then dc
      else Cache_Add now dc d
             \<lparr>ans = set_Header ((Header a)\<lparr>hdr_Name := Fqdn d\<rparr>) a, trans = t\<rparr> DefaultExpiration)"
proof -
  have "hdr_Name (Header a) = Fqdn d \<Longrightarrow> set_Header ((Header a)\<lparr>hdr_Name := Fqdn d\<rparr>) a = a"
    by (cases a) auto
  then show ?thesis
    by (auto simp add: domaincache_Add_def Let_def)
qed

lemma domaincache_Get_Add:
  "d \<noteq> [] \<Longrightarrow> domaincache_Get now dc d = None \<Longrightarrow>
   domaincache_Get now (fst (domaincache_Add now dc d a t)) d =
     Some \<lparr>ans = set_Header ((Header a)\<lparr>hdr_Name := Fqdn d\<rparr>) a, trans = t\<rparr>"
  by (simp add: domaincache_Add_fst domaincache_Get_def Cache_Add_miss)

text \<open>
  C2, as amended. In both caches \<open>Add\<close> on a key that holds an unexpired entry leaves
  the cache as it is, value and expiry, so that \<open>Get\<close> right after it returns the old
  value. \<open>Add\<close> on the empty key leaves the cache as it is. On a key that is not empty and
  holds no unexpired entry, \<open>Add\<close> changes the entry of that key alone: it stores the
  value with a fresh expiry, the instant of the call plus the default expiration of the
  cache (never, when that is not positive), so that \<open>Get\<close> returns the value from the
  call on and misses once that expiry has passed. In the domain cache the value stored is
  the answer with the fully-qualified key as its owner, and the transport.
\<close>

theorem cache_Add_keeps_unexpired:
  "(ipcache_Get now c k = Some old \<longrightarrow>
      ipcache_Add now c k v = c \<and> ipcache_Get now (ipcache_Add now c k v) k = Some old)
   \<and> ipcache_Add now c [] v = c
   \<and> (k' \<noteq> [] \<and> ipcache_Get now' c' k' = None \<longrightarrow>
      ipcache_Add now' c' k' v' = c'\<lparr>items := (items c')(k' := Some (v', fresh_expiry now' c'))\<rparr>
      \<and> ipcache_Get now' (ipcache_Add now' c' k' v') k' = Some v'
      \<and> ipcache_Get later (ipcache_Add now' c' k' v') k' =
          (if Expired later (fresh_expiry now' c') then None
           else Some v'))
   \<and> (domaincache_Get now dc d = Some cell \<longrightarrow>
      fst (domaincache_Add now dc d a t) = dc
      \<and> domaincache_Get now (fst (domaincache_Add now dc d a t)) d = Some cell)
   \<and> domaincache_Add now dc [] a t = (dc, a)
   \<and> (d' \<noteq> [] \<and> domaincache_Get now' dc' d' = None \<longrightarrow>
      fst (domaincache_Add now' dc' d' a' t') =
        dc'\<lparr>items := (items dc')(d' :=
              Some (\<lparr>ans = set_Header ((Header a')\<lparr>hdr_Name := Fqdn d'\<rparr>) a', trans = t'\<rparr>,
                    fresh_expiry now' dc'))\<rparr>
      \<and> domaincache_Get now' (fst (domaincache_Add now' dc' d' a' t')) d'
          = Some \<lparr>ans = set_Header ((Header a')\<lparr>hdr_Name := Fqdn d'\<rparr>) a', trans = t'\<rparr>
      \<and> domaincache_Get later (fst (domaincache_Add now' dc' d' a' t')) d' =
          (if Expired later (fresh_expiry now' dc') then None
           else Some \<lparr>ans = set_Header ((Header a')\<lparr>hdr_Name := Fqdn d'\<rparr>) a', trans = t'\<rparr>))"
proof (intro conjI impI)
  assume "ipcache_Get now c k = Some old"
  then show "ipcache_Add now c k v = c" "ipcache_Get now (ipcache_Add now c k v) k = Some old"
    by (auto simp add: ipcache_Get_def ipcache_Add_def Cache_Add_hit)
next
  show "ipcache_Add now c [] v = c"
    by (simp add: ipcache_Add_def)
next
  assume h: "k' \<noteq> [] \<and> ipcache_Get now' c' k' = None"
  then show eq: "ipcache_Add now' c' k' v' =
      c'\<lparr>items := (items c')(k' := Some (v', fresh_expiry now' c'))\<rparr>"
    by (simp add: ipcache_Get_def ipcache_Add_def Cache_Add_eq)
  from h show "ipcache_Get now' (ipcache_Add now' c' k' v') k' = Some v'"
    by (simp add: ipcache_Get_def ipcache_Add_def Cache_Add_miss)
  show "ipcache_Get later (ipcache_Add now' c' k' v') k' =
          (if Expired later (fresh_expiry now' c') then None
           else Some v')"
    unfolding eq ipcache_Get_def by (rule Cache_Get_stored)
next
  assume h: "domaincache_Get now dc d = Some cell"
  then show "fst (domaincache_Add now dc d a t) = dc"
    by (simp add: domaincache_Get_def domaincache_Add_fst Cache_Add_hit)
  with h show "domaincache_Get now (fst (domaincache_Add now dc d a t)) d = Some cell"
    by simp
next
  show "domaincache_Add now dc [] a t = (dc, a)"
    by (simp add: domaincache_Add_def)
next
  assume h: "d' \<noteq> [] \<and> domaincache_Get now' dc' d' = None"
  then show eq: "fst (domaincache_Add now' dc' d' a' t') =
        dc'\<lparr>items := (items dc')(d' :=
              Some (\<lparr>ans = set_Header ((Header a')\<lparr>hdr_Name := Fqdn d'\<rparr>) a', trans = t'\<rparr>,
                    fresh_expiry now' dc'))\<rparr>"
    by (simp add: domaincache_Get_def domaincache_Add_fst Cache_Add_eq)
  from h show "domaincache_Get now' (fst (domaincache_Add now' dc' d' a' t')) d'
        = Some \<lparr>ans = set_Header ((Header a')\<lparr>hdr_Name := Fqdn d'\<rparr>) a', trans = t'\<rparr>"
    by (simp add: domaincache_Get_Add)
  show "domaincache_Get later (fst (domaincache_Add now' dc' d' a' t')) d' =
          (if Expired later (fresh_expiry now' dc') then None
           else Some \<lparr>ans = set_Header ((Header a')\<lparr>hdr_Name := Fqdn d'\<rparr>) a', trans = t'\<rparr>)"
    unfolding eq domaincache_Get_def by (rule Cache_Get_stored)
qed

theorem cache_Add_keeps_unexpired_witness:
  "ipcache_Add 0 (ipcache_Add 0 (NewIpcache 300 600) ''1.2.3.4'' TRANS_DIRECT) ''1.2.3.4'' TRANS_PROXY
     = ipcache_Add 0 (NewIpcache 300 600) ''1.2.3.4'' TRANS_DIRECT
   \<and> ipcache_Get 0 (ipcache_Add 0 (ipcache_Add 0 (NewIpcache 300 600) ''1.2.3.4'' TRANS_DIRECT)
                        ''1.2.3.4'' TRANS_PROXY) ''1.2.3.4'' = Some TRANS_DIRECT
   \<and> ipcache_Add 0 (NewIpcache 300 600) ''1.2.3.4'' TRANS_PROXY
       = \<lparr>defaultExpiration = 300,
          items = (\<lambda>k. None)(''1.2.3.4'' := Some (TRANS_PROXY, 300))\<rparr>
   \<and> ipcache_Get 0 (ipcache_Add 0 (NewIpcache 300 600) ''1.2.3.4'' TRANS_PROXY) ''1.2.3.4''
       = Some TRANS_PROXY
   \<and> ipcache_Get 300 (ipcache_Add 0 (NewIpcache 300 600) ''1.2.3.4'' TRANS_PROXY) ''1.2.3.4''
       = Some TRANS_PROXY
   \<and> ipcache_Get 301 (ipcache_Add 0 (NewIpcache 300 600) ''1.2.3.4'' TRANS_PROXY) ''1.2.3.4''
       = None
   \<and> fst (domaincache_Add 0 (fst (domaincache_Add 0 (NewDomaincache 300 600) ''mixed.test''
              (ex_A ''mixed.test.'' [1, 2, 3, 4]) TRANS_DIRECT))
            ''mixed.test'' (ex_A ''mixed.test.'' [8, 8, 8, 8]) TRANS_PROXY)
       = fst (domaincache_Add 0 (NewDomaincache 300 600) ''mixed.test''
              (ex_A ''mixed.test.'' [1, 2, 3, 4]) TRANS_DIRECT)
   \<and> domaincache_Get 0 (fst (domaincache_Add 0 (NewDomaincache 300 600) ''mixed.test''
              (ex_A ''cdn.test.'' [1, 2, 3, 4]) TRANS_DIRECT)) ''mixed.test''
       = Some \<lparr>ans = ex_A ''mixed.test.'' [1, 2, 3, 4], trans = TRANS_DIRECT\<rparr>
   \<and> domaincache_Get 301 (fst (domaincache_Add 0 (NewDomaincache 300 600) ''mixed.test''
              (ex_A ''cdn.test.'' [1, 2, 3, 4]) TRANS_DIRECT)) ''mixed.test''
       = None"
proof -
  let ?c = "ipcache_Add 0 (NewIpcache 300 600) ''1.2.3.4'' TRANS_DIRECT"
  let ?dc = "fst (domaincache_Add 0 (NewDomaincache 300 600) ''mixed.test''
              (ex_A ''mixed.test.'' [1, 2, 3, 4]) TRANS_DIRECT)"
  have 1: "ipcache_Get 0 ?c ''1.2.3.4'' = Some TRANS_DIRECT"
    by (simp add: ipcache_Get_def ipcache_Add_def NewIpcache_def Cache_New_def Cache_Add_def
        Cache_Get_def Cache_set_def Expired_def DefaultExpiration_def Let_def)
  have 2: "''1.2.3.4'' \<noteq> [] \<and> ipcache_Get 0 (NewIpcache 300 600) ''1.2.3.4'' = None"
    by (simp add: ipcache_Get_def NewIpcache_def Cache_New_def Cache_Get_def)
  have 3: "domaincache_Get 0 ?dc ''mixed.test''
       = Some \<lparr>ans = ex_A ''mixed.test.'' [1, 2, 3, 4], trans = TRANS_DIRECT\<rparr>"
    by (simp add: domaincache_Get_def domaincache_Add_def NewDomaincache_def Cache_New_def
        Cache_Add_def Cache_Get_def Cache_set_def Expired_def DefaultExpiration_def Let_def
        Fqdn_def IsFqdn_def ex_A_def)
  have 4: "''mixed.test'' \<noteq> [] \<and> domaincache_Get 0 (NewDomaincache 300 600) ''mixed.test'' = None"
    by (simp add: domaincache_Get_def NewDomaincache_def Cache_New_def Cache_Get_def)
  have 5: "set_Header ((Header (ex_A ''cdn.test.'' [1, 2, 3, 4]))\<lparr>hdr_Name := Fqdn ''mixed.test''\<rparr>)
             (ex_A ''cdn.test.'' [1, 2, 3, 4]) = ex_A ''mixed.test.'' [1, 2, 3, 4]"
    by (simp add: ex_A_def Fqdn_def IsFqdn_def)
  have 6: "fresh_expiry 0 (NewIpcache 300 600) = 300"
    "fresh_expiry 0 (NewDomaincache 300 600) = 300"
    "\<not> Expired 300 300" "Expired 301 300"
    by (simp_all add: fresh_expiry_def NewIpcache_def NewDomaincache_def Cache_New_def Expired_def)
  have 7: "(NewIpcache 300 600)\<lparr>items := (items (NewIpcache 300 600))
              (''1.2.3.4'' := Some (TRANS_PROXY, 300))\<rparr>
           = \<lparr>defaultExpiration = 300, items = (\<lambda>k. None)(''1.2.3.4'' := Some (TRANS_PROXY, 300))\<rparr>"
    by (simp add: NewIpcache_def Cache_New_def)
  note t = cache_Add_keeps_unexpired
         [where now = 0 and c = ?c and k = "''1.2.3.4''" and old = TRANS_DIRECT and v = TRANS_PROXY
            and k' = "''1.2.3.4''" and now' = 0 and c' = "NewIpcache 300 600" and v' = TRANS_PROXY
            and dc = ?dc and d = "''mixed.test''"
            and cell = "\<lparr>ans = ex_A ''mixed.test.'' [1, 2, 3, 4], trans = TRANS_DIRECT\<rparr>"
            and a = "ex_A ''mixed.test.'' [8, 8, 8, 8]" and t = TRANS_PROXY
            and d' = "''mixed.test''" and dc' = "NewDomaincache 300 600"
            and a' = "ex_A ''cdn.test.'' [1, 2, 3, 4]" and t' = TRANS_DIRECT]
  note t300 = t [where later = 300]
  note t301 = t [where later = 301]
  have a: "ipcache_Add 0 ?c ''1.2.3.4'' TRANS_PROXY = ?c"
    and b: "ipcache_Get 0 (ipcache_Add 0 ?c ''1.2.3.4'' TRANS_PROXY) ''1.2.3.4'' = Some TRANS_DIRECT"
    using t300 1 by blast+
  have "ipcache_Add 0 (NewIpcache 300 600) ''1.2.3.4'' TRANS_PROXY
       = (NewIpcache 300 600)\<lparr>items := (items (NewIpcache 300 600))
              (''1.2.3.4'' := Some (TRANS_PROXY, fresh_expiry 0 (NewIpcache 300 600)))\<rparr>"
    using t300 2 by blast
  then have c: "ipcache_Add 0 (NewIpcache 300 600) ''1.2.3.4'' TRANS_PROXY
       = \<lparr>defaultExpiration = 300,
          items = (\<lambda>k. None)(''1.2.3.4'' := Some (TRANS_PROXY, 300))\<rparr>"
    unfolding 6 7 .
  have d: "ipcache_Get 0 (ipcache_Add 0 (NewIpcache 300 600) ''1.2.3.4'' TRANS_PROXY) ''1.2.3.4''
       = Some TRANS_PROXY"
    using t300 2 by blast
  have "ipcache_Get 300 (ipcache_Add 0 (NewIpcache 300 600) ''1.2.3.4'' TRANS_PROXY) ''1.2.3.4''
       = (if Expired 300 (fresh_expiry 0 (NewIpcache 300 600)) then None else Some TRANS_PROXY)"
    using t300 2 by blast
  then have e: "ipcache_Get 300 (ipcache_Add 0 (NewIpcache 300 600) ''1.2.3.4'' TRANS_PROXY) ''1.2.3.4''
       = Some TRANS_PROXY"
    by (simp add: 6)
  have "ipcache_Get 301 (ipcache_Add 0 (NewIpcache 300 600) ''1.2.3.4'' TRANS_PROXY) ''1.2.3.4''
       = (if Expired 301 (fresh_expiry 0 (NewIpcache 300 600)) then None else Some TRANS_PROXY)"
    using t301 2 by blast
  then have f: "ipcache_Get 301 (ipcache_Add 0 (NewIpcache 300 600) ''1.2.3.4'' TRANS_PROXY) ''1.2.3.4''
       = None"
    by (simp add: 6)
  have g: "fst (domaincache_Add 0 ?dc ''mixed.test'' (ex_A ''mixed.test.'' [8, 8, 8, 8]) TRANS_PROXY) = ?dc"
    using t300 3 by blast
  have "domaincache_Get 0 (fst (domaincache_Add 0 (NewDomaincache 300 600) ''mixed.test''
              (ex_A ''cdn.test.'' [1, 2, 3, 4]) TRANS_DIRECT)) ''mixed.test''
       = Some \<lparr>ans = set_Header ((Header (ex_A ''cdn.test.'' [1, 2, 3, 4]))
                              \<lparr>hdr_Name := Fqdn ''mixed.test''\<rparr>) (ex_A ''cdn.test.'' [1, 2, 3, 4]),
               trans = TRANS_DIRECT\<rparr>"
    using t300 4 by blast
  then have h: "domaincache_Get 0 (fst (domaincache_Add 0 (NewDomaincache 300 600) ''mixed.test''
              (ex_A ''cdn.test.'' [1, 2, 3, 4]) TRANS_DIRECT)) ''mixed.test''
       = Some \<lparr>ans = ex_A ''mixed.test.'' [1, 2, 3, 4], trans = TRANS_DIRECT\<rparr>"
    unfolding 5 .
  have "domaincache_Get 301 (fst (domaincache_Add 0 (NewDomaincache 300 600) ''mixed.test''
              (ex_A ''cdn.test.'' [1, 2, 3, 4]) TRANS_DIRECT)) ''mixed.test''
       = (if Expired 301 (fresh_expiry 0 (NewDomaincache 300 600)) then None
          else Some \<lparr>ans = set_Header ((Header (ex_A ''cdn.test.'' [1, 2, 3, 4]))
                              \<lparr>hdr_Name := Fqdn ''mixed.test''\<rparr>) (ex_A ''cdn.test.'' [1, 2, 3, 4]),
               trans = TRANS_DIRECT\<rparr>)"
    using t301 4 by blast
  then have i: "domaincache_Get 301 (fst (domaincache_Add 0 (NewDomaincache 300 600) ''mixed.test''
              (ex_A ''cdn.test.'' [1, 2, 3, 4]) TRANS_DIRECT)) ''mixed.test''
       = None"
    by (simp add: 6)
  show ?thesis
    by (intro conjI a b c d e f g h i)
qed

text \<open>
  C2 as stated fails: with \<open>1.2.3.4\<close> cached as DIRECT and not expired, \<open>Add\<close> of PROXY
  for the same key is dropped, and \<open>Get\<close> still returns DIRECT.
\<close>

theorem cache_Add_overwrite_counterexample:
  "ipcache_Get 0 (ipcache_Add 0 (NewIpcache 300 600) ''1.2.3.4'' TRANS_DIRECT) ''1.2.3.4''
     = Some TRANS_DIRECT
   \<and> ipcache_Get 0 (ipcache_Add 0 (ipcache_Add 0 (NewIpcache 300 600) ''1.2.3.4'' TRANS_DIRECT)
                        ''1.2.3.4'' TRANS_PROXY) ''1.2.3.4''
     \<noteq> Some TRANS_PROXY"
  by (simp add: ipcache_Get_def ipcache_Add_def NewIpcache_def Cache_New_def Cache_Add_def
        Cache_Get_def Cache_set_def Expired_def DefaultExpiration_def Let_def)


section \<open>Races of the example upstreams\<close>


lemma race_all_fail:
  assumes "result 0 = Some (Inl e0)" "result 1 = Some (Inl e1)" "result 2 = Some (Inl e2)"
  shows "received (run_to_end result []) = Some (Inl e2)"
  using assms
  by (simp add: received_def run_to_end_def goroutine_step_def race_init_def spawnNum_def)


lemma ex_race_fails:
  assumes "pf s = ex_fails" "net dt \<noteq> ''https''"
  shows "race_at (ex_env pf) s dt req = Some (Inl ''i/o timeout'')"
proof -
  have s: "schedule_at (ex_env pf) s = []"
    by (simp add: ex_env_def)
  have x: "Exchange (platform_at (ex_env pf) s i) dt req = Some (Inl ''i/o timeout'')" for i
    using assms
    by (simp add: ex_env_def Exchange_def ex_fails_def)
  show ?thesis
    unfolding race_at_def legallySpawnExchange_def s
    by (rule race_all_fail) (simp_all add: x)
qed

text \<open>
  With three failed exchanges whose goroutines all load the counter before any of them
  adds to it, nothing is sent and the race does not return.
\<close>

lemma race_all_fail_loads_first:
  assumes "result 0 = Some (Inl e0)" "result 1 = Some (Inl e1)" "result 2 = Some (Inl e2)"
  shows "received (run_to_end result [0, 1, 2, 0, 1, 2]) = None"
  using assms
  by (simp add: received_def run_to_end_def goroutine_step_def race_init_def spawnNum_def)


lemma race_at_fails:
  assumes "\<And>i. platform_at e s i = ex_fails" "schedule_at e s = []" "net dt \<noteq> ''https''"
  shows "race_at e s dt req = Some (Inl ''i/o timeout'')"
proof -
  have x: "Exchange (platform_at e s i) dt req = Some (Inl ''i/o timeout'')" for i
    using assms by (simp add: Exchange_def ex_fails_def)
  show ?thesis
    unfolding race_at_def legallySpawnExchange_def assms(2)
    by (rule race_all_fail) (simp_all add: x)
qed

lemma race_at_hangs:
  assumes "\<And>i. platform_at e s i = ex_fails" "schedule_at e s = [0, 1, 2, 0, 1, 2]"
    and "net dt \<noteq> ''https''"
  shows "race_at e s dt req = None"
proof -
  have x: "Exchange (platform_at e s i) dt req = Some (Inl ''i/o timeout'')" for i
    using assms by (simp add: Exchange_def ex_fails_def)
  show ?thesis
    unfolding race_at_def legallySpawnExchange_def assms(2)
    by (rule race_all_fail_loads_first) (simp_all add: x)
qed


section \<open>Facts about the example inputs and the classification\<close>

lemma IP_String_examples:
  "IP_String (Some [1, 2, 3, 5]) = ''1.2.3.5''"
  "IP_String (Some [93, 184, 216, 34]) = ''93.184.216.34''"
  "IP_String None = ''<nil>''"
  by code_simp+

lemma ex_env_fields:
  "DNS_SUBNET_LOCAL_IP (ex_env pf) = Some [114, 114, 114, 114]"
  "DNS_SUBNET_PROXY_IP (ex_env pf) = Some [8, 8, 8, 8]"
  "DNSSTRANSPORT_OBEDIENT (ex_env pf) = \<lparr>nameserver = ''114.114.114.114:53'', net = ''udp'', proxy = False\<rparr>"
  "DNSSTRANSPORT_ABROAD (ex_env pf) = \<lparr>nameserver = ''8.8.8.8:53'', net = ''tcp'', proxy = True\<rparr>"
  "MatchGFW (DEFAULT_DOMAIN_MATCHER (ex_env pf)) d = (d = ''example.net'' \<or> HasSuffix d ''.example.net'')"
  "MatchObedient (DEFAULT_DOMAIN_MATCHER (ex_env pf)) d = (d = ''cn.example'' \<or> HasSuffix d ''.cn.example'')"
  "IP_MATCH_CHINESE_MAINLAND (ex_env pf) ip = (case IP_To4 ip of Some (b # bs) \<Rightarrow> b = 1 | other \<Rightarrow> False)"
  by (simp_all add: ex_env_def)

lemma ex_env_sched_fields:
  "DNS_SUBNET_LOCAL_IP (ex_env_sched pf sch) = Some [114, 114, 114, 114]"
  "DNS_SUBNET_PROXY_IP (ex_env_sched pf sch) = Some [8, 8, 8, 8]"
  "DNSSTRANSPORT_OBEDIENT (ex_env_sched pf sch) = \<lparr>nameserver = ''114.114.114.114:53'', net = ''udp'', proxy = False\<rparr>"
  "DNSSTRANSPORT_ABROAD (ex_env_sched pf sch) = \<lparr>nameserver = ''8.8.8.8:53'', net = ''tcp'', proxy = True\<rparr>"
  "MatchGFW (DEFAULT_DOMAIN_MATCHER (ex_env_sched pf sch)) d = (d = ''example.net'' \<or> HasSuffix d ''.example.net'')"
  "MatchObedient (DEFAULT_DOMAIN_MATCHER (ex_env_sched pf sch)) d = (d = ''cn.example'' \<or> HasSuffix d ''.cn.example'')"
  "IP_MATCH_CHINESE_MAINLAND (ex_env_sched pf sch) ip = (case IP_To4 ip of Some (b # bs) \<Rightarrow> b = 1 | other \<Rightarrow> False)"
  "platform_at (ex_env_sched pf sch) s i = pf s"
  "schedule_at (ex_env_sched pf sch) s = sch s"
  by (simp_all add: ex_env_sched_def ex_env_def)


lemma ex_env_platform:
  "platform_at (ex_env pf) s i = pf s"
  "schedule_at (ex_env pf) s = []"
  by (simp_all add: ex_env_def)

lemma ex_world_miss: "domaincache_Get now (DEFAULT_DOMAINCACHE ex_world) d = None"
  by (simp add: domaincache_Get_def Cache_Get_def ex_world_def NewDomaincache_def Cache_New_def)

lemma ex_query_Question:
  "Question (ex_query name) = [\<lparr>q_Name = name, Qtype = TypeA, Qclass = ClassINET\<rparr>]"
  by (simp add: ex_query_def new_Msg_def)

lemma ex_query_ECS:
  "MsgSetECSWithAddr (ex_query name) (Some [a, b, c, d]) =
     (ex_query name)\<lparr>Extra :=
        [RR_OPT \<lparr>hdr_Name = ''.'', Rrtype = TypeOPT, Class = 0, Ttl = 0, Rdlength = 0\<rparr>
           [Subnet \<lparr>Code = EDNS0SUBNET, Family = 1, SourceNetmask = 32, SourceScope = 0,
                    Address = Some [a, b, c, d]\<rparr>]]\<rparr>"
  by (simp add: MsgSetECSWithAddr_def ex_query_def new_Msg_def IsEdns0_def Let_def
        new_OPT_def fill_ecs_def new_EDNS0_SUBNET_def IP_To4_def)


lemma MsgSetECSWithAddr_Question [simp]: "Question (MsgSetECSWithAddr m a) = Question m"
  by (simp add: MsgSetECSWithAddr_def Let_def split: option.split prod.split)






lemma handleDnsRequest_classify:
  assumes "Question req = q # qs" "\<not> HasSuffix (q_Name q) DHCP_HOST" "q_Name q \<noteq> []"
    and "domaincache_Get now (DEFAULT_DOMAINCACHE w) (butlast (q_Name q)) = None"
  shows "handleDnsRequest e now req w =
     (let d = butlast (q_Name q);
          w1 = w\<lparr>trace := trace w @ [CallDomainGet d, CallMatchGFW d]\<rparr>;
          w2 = w\<lparr>trace := trace w @ [CallDomainGet d, CallMatchGFW d, CallMatchObedient d]\<rparr>
      in if MatchGFW (DEFAULT_DOMAIN_MATCHER e) d then matchGfw_case e now req d w1
         else if MatchObedient (DEFAULT_DOMAIN_MATCHER e) d then matchObedient_case e now req d w2
         else unknown_case e now req d w2)"
  using assms unfolding handleDnsRequest_def
  by (simp add: Let_def log_call_def)








section \<open>The whitelisted domain whose upstream gives no answer\<close>

text \<open>
  What the branch does once the race on the obedient upstream has returned an error, or
  a response from which no A or AAAA answer can be extracted: the handler sets the local
  sentinel as ECS on the request, races once on the abroad upstream, and ends with what
  that race gives. Both caches are as they were; the calls made are the cache lookup,
  the two matcher calls and the two races, and no \<open>Add\<close>.
\<close>

lemma obedient_fallback:
  assumes q: "Question req = q # qs"
    and zone: "\<not> HasSuffix (q_Name q) DHCP_HOST"
    and nonempty: "q_Name q \<noteq> []"
    and d: "d = butlast (q_Name q)"
    and miss: "domaincache_Get now (DEFAULT_DOMAINCACHE w) d = None"
    and gfw: "\<not> MatchGFW (DEFAULT_DOMAIN_MATCHER e) d"
    and obedient: "MatchObedient (DEFAULT_DOMAIN_MATCHER e) d"
    and race: "race_at e SiteObedient (DNSSTRANSPORT_OBEDIENT e) req = Some r"
    and failed: "(\<exists>err. r = Inl err) \<or> (\<exists>resp. r = Inr resp \<and> MsgExtractAnswer (Some resp) = None)"
    and req1: "req1 = MsgSetECSWithAddr req (DNS_SUBNET_LOCAL_IP e)"
  shows "handleDnsRequest e now req w =
           ((case race_at e SiteRetry (DNSSTRANSPORT_ABROAD e) req1 of
               None \<Rightarrow> NoReturn
             | Some (Inl err) \<Rightarrow> Failed err
             | Some (Inr resp) \<Rightarrow> Replied resp),
            w\<lparr>trace := trace w @
                 [CallDomainGet d, CallMatchGFW d, CallMatchObedient d,
                  CallRace (DNSSTRANSPORT_OBEDIENT e) req,
                  CallRace (DNSSTRANSPORT_ABROAD e) req1]\<rparr>)
         \<and> DEFAULT_IPCACHE (snd (handleDnsRequest e now req w)) = DEFAULT_IPCACHE w
         \<and> DEFAULT_DOMAINCACHE (snd (handleDnsRequest e now req w)) = DEFAULT_DOMAINCACHE w"
proof -
  have u: "usable r = None"
    using failed by (auto simp: usable_def)
  have "handleDnsRequest e now req w =
           ((case race_at e SiteRetry (DNSSTRANSPORT_ABROAD e) req1 of
               None \<Rightarrow> NoReturn
             | Some (Inl err) \<Rightarrow> Failed err
             | Some (Inr resp) \<Rightarrow> Replied resp),
            w\<lparr>trace := trace w @
                 [CallDomainGet d, CallMatchGFW d, CallMatchObedient d,
                  CallRace (DNSSTRANSPORT_OBEDIENT e) req,
                  CallRace (DNSSTRANSPORT_ABROAD e) req1]\<rparr>)"
    using q zone nonempty miss gfw obedient race u
    unfolding handleDnsRequest_def matchObedient_case_def d req1
    by (simp add: Let_def log_call_def split: option.split sum.split)
  then show ?thesis by simp
qed

text \<open>
  C7. A query for a name under the whitelisted \<open>cn.example\<close>. First, the three exchanges
  with the obedient upstream all time out and their goroutines all load the failure
  counter before any of them adds to it: the obedient race fails and does not return,
  so the handler makes no retry on the abroad upstream, which would have answered,
  and neither replies nor returns an error; the calls made are the cache lookup, the two
  matcher calls and the one race. Second, the goroutines of the obedient race run in
  turn and the race returns its error: the retry is made, with the local sentinel as
  ECS, and when its three exchanges time out in the interleaved order the handler again
  neither replies nor returns an error. The caches are untouched in both.
\<close>

theorem obedient_failure_without_retry:
  "Exchange ex_fails \<lparr>nameserver = ''114.114.114.114:53'', net = ''udp'', proxy = False\<rparr>
      (ex_query ''www.cn.example.'') = Some (Inl ''i/o timeout'')
   \<and> handleDnsRequest
       (ex_env_sched
          (\<lambda>s. if s = SiteObedient then ex_fails
               else ex_answers [ex_A ''www.cn.example.'' [1, 2, 3, 4]])
          (\<lambda>s. if s = SiteObedient then [0, 1, 2, 0, 1, 2] else []))
       0 (ex_query ''www.cn.example.'') ex_world
     = (NoReturn,
        ex_world\<lparr>trace :=
          [CallDomainGet ''www.cn.example'', CallMatchGFW ''www.cn.example'',
           CallMatchObedient ''www.cn.example'',
           CallRace \<lparr>nameserver = ''114.114.114.114:53'', net = ''udp'', proxy = False\<rparr>
             (ex_query ''www.cn.example.'')]\<rparr>)
   \<and> handleDnsRequest
       (ex_env_sched (\<lambda>s. ex_fails) (\<lambda>s. if s = SiteRetry then [0, 1, 2, 0, 1, 2] else []))
       0 (ex_query ''www.cn.example.'') ex_world
     = (NoReturn,
        ex_world\<lparr>trace :=
          [CallDomainGet ''www.cn.example'', CallMatchGFW ''www.cn.example'',
           CallMatchObedient ''www.cn.example'',
           CallRace \<lparr>nameserver = ''114.114.114.114:53'', net = ''udp'', proxy = False\<rparr>
             (ex_query ''www.cn.example.''),
           CallRace \<lparr>nameserver = ''8.8.8.8:53'', net = ''tcp'', proxy = True\<rparr>
             ((ex_query ''www.cn.example.'')\<lparr>Extra :=
                [RR_OPT \<lparr>hdr_Name = ''.'', Rrtype = TypeOPT, Class = 0, Ttl = 0, Rdlength = 0\<rparr>
                   [Subnet \<lparr>Code = EDNS0SUBNET, Family = 1, SourceNetmask = 32, SourceScope = 0,
                            Address = Some [114, 114, 114, 114]\<rparr>]]\<rparr>)]\<rparr>)"
proof -
  let ?req = "ex_query ''www.cn.example.''"
  let ?q = "\<lparr>q_Name = ''www.cn.example.'', Qtype = TypeA, Qclass = ClassINET\<rparr>"
  let ?ob = "\<lparr>nameserver = ''114.114.114.114:53'', net = ''udp'', proxy = False\<rparr>"
  let ?ab = "\<lparr>nameserver = ''8.8.8.8:53'', net = ''tcp'', proxy = True\<rparr>"
  let ?e1 = "ex_env_sched
          (\<lambda>s. if s = SiteObedient then ex_fails
               else ex_answers [ex_A ''www.cn.example.'' [1, 2, 3, 4]])
          (\<lambda>s. if s = SiteObedient then [0, 1, 2, 0, 1, 2] else [])"
  let ?e2 = "ex_env_sched (\<lambda>s. ex_fails) (\<lambda>s. if s = SiteRetry then [0, 1, 2, 0, 1, 2] else [])"
  let ?w2 = "ex_world\<lparr>trace := trace ex_world @
            [CallDomainGet ''www.cn.example'', CallMatchGFW ''www.cn.example'',
             CallMatchObedient ''www.cn.example'']\<rparr>"
  have x: "Exchange ex_fails ?ob ?req = Some (Inl ''i/o timeout'')"
    by (simp add: Exchange_def ex_fails_def)
  have classify: "handleDnsRequest e 0 ?req ex_world = matchObedient_case e 0 ?req ''www.cn.example'' ?w2"
    if "e = ex_env_sched pf sch" for e pf sch
    unfolding that
    by (subst handleDnsRequest_classify [where q = ?q and qs = "[]"])
       (simp_all add: ex_query_Question HasSuffix_def DHCP_HOST_def ex_world_miss
          ex_env_sched_fields Let_def)
  have r1: "race_at ?e1 SiteObedient ?ob ?req = None"
    by (rule race_at_hangs) (simp_all add: ex_env_sched_fields)
  have one: "handleDnsRequest ?e1 0 ?req ex_world =
      (NoReturn,
        ex_world\<lparr>trace :=
          [CallDomainGet ''www.cn.example'', CallMatchGFW ''www.cn.example'',
           CallMatchObedient ''www.cn.example'', CallRace ?ob ?req]\<rparr>)"
    unfolding classify [OF refl] matchObedient_case_def
    by (simp add: ex_env_sched_fields r1 Let_def log_call_def ex_world_def)
  have r2: "race_at ?e2 SiteObedient ?ob ?req = Some (Inl ''i/o timeout'')"
    by (rule race_at_fails) (simp_all add: ex_env_sched_fields)
  have r3: "race_at ?e2 SiteRetry ?ab req' = None" for req'
    by (rule race_at_hangs) (simp_all add: ex_env_sched_fields)
  have two: "handleDnsRequest ?e2 0 ?req ex_world =
      (NoReturn,
        ex_world\<lparr>trace :=
          [CallDomainGet ''www.cn.example'', CallMatchGFW ''www.cn.example'',
           CallMatchObedient ''www.cn.example'', CallRace ?ob ?req,
           CallRace ?ab
             (?req\<lparr>Extra :=
                [RR_OPT \<lparr>hdr_Name = ''.'', Rrtype = TypeOPT, Class = 0, Ttl = 0, Rdlength = 0\<rparr>
                   [Subnet \<lparr>Code = EDNS0SUBNET, Family = 1, SourceNetmask = 32, SourceScope = 0,
                            Address = Some [114, 114, 114, 114]\<rparr>]]\<rparr>)]\<rparr>)"
    unfolding classify [OF refl] matchObedient_case_def
    by (simp add: ex_env_sched_fields r2 r3 usable_def ex_query_ECS Let_def log_call_def ex_world_def)
  show ?thesis
    by (intro conjI x one two)
qed


section \<open>The blacklisted domain\<close>






section \<open>The unknown domain with a domestic address\<close>





text \<open>
  Two runs of the branch outside the lemma above. A request that brings a subnet option
  of its own: both probes write to that one option, and the outcome is \<open>Unsynchronised\<close>.
  A re-query on the obedient upstream whose three exchanges time out, their goroutines
  all loading the failure counter before any of them adds to it: the race does not
  return, the handler neither replies nor returns an error, and both caches are as they
  were.
\<close>

lemma unknown_shared_subnet:
  "handleDnsRequest (ex_env pf) 0 ex_two_subnets ex_world =
     (Unsynchronised,
      ex_world\<lparr>trace := [CallDomainGet ''example.com'', CallMatchGFW ''example.com'',
                         CallMatchObedient ''example.com'']\<rparr>)"
proof -
  have s: "shares_subnet ex_two_subnets"
    by (simp add: shares_subnet_def ex_two_subnets_def IsEdns0_def)
  have q: "Question ex_two_subnets
             = [\<lparr>q_Name = ''example.com.'', Qtype = TypeA, Qclass = ClassINET\<rparr>]"
    by (simp add: ex_two_subnets_def ex_query_Question)
  have classify: "handleDnsRequest (ex_env pf) 0 ex_two_subnets ex_world =
      unknown_case (ex_env pf) 0 ex_two_subnets ''example.com''
        (ex_world\<lparr>trace := trace ex_world @
            [CallDomainGet ''example.com'', CallMatchGFW ''example.com'',
             CallMatchObedient ''example.com'']\<rparr>)"
    by (subst handleDnsRequest_classify
          [where q = "\<lparr>q_Name = ''example.com.'', Qtype = TypeA, Qclass = ClassINET\<rparr>"
             and qs = "[]"])
       (simp_all add: q HasSuffix_def DHCP_HOST_def ex_world_miss ex_env_fields Let_def)
  show ?thesis
    unfolding classify unknown_case_def
    by (simp add: s ex_world_def)
qed




section \<open>The race\<close>

text \<open>
  With at least one successful exchange and no panic, the race returns the response of
  a successful exchange, whatever the schedule.
\<close>

lemma lt3: "(i::nat) < 3 \<longleftrightarrow> i = 0 \<or> i = 1 \<or> i = 2"
  by auto

lemma race_inv_init: "race_inv result race_init"
  by (simp add: race_inv_def race_init_def finished_failures_def)

lemma loaded_small:
  assumes inv: "race_inv result s" and k: "k < 3" "result k = Some (Inr r)"
    and i: "i < 3" "pc s i = 1"
  shows "loaded s i \<le> 1"
proof -
  have fi: "\<exists>e. result i = Some (Inl e)" and le: "loaded s i \<le> failedTimes s"
    using inv i by (auto simp: race_inv_def)
  have "i \<noteq> k" using fi k by auto
  have "finished_failures result s \<le> 1"
    using k i fi \<open>i \<noteq> k\<close>
    unfolding finished_failures_def lt3
    by (elim disjE) auto
  moreover have "failedTimes s \<le> finished_failures result s"
    using inv by (simp add: race_inv_def)
  ultimately show ?thesis using le by linarith
qed

lemma race_inv_step:
  assumes inv: "race_inv result s" and k: "k < 3" "result k = Some (Inr r)"
    and total: "\<forall>i<3. result i \<noteq> None"
  shows "race_inv result (goroutine_step result s i)"
proof (cases "i < 3")
  case False
  then show ?thesis using inv by (simp add: goroutine_step_def spawnNum_def)
next
  case True
  have np: "\<not> panicked s" and le2: "pc s i \<le> 2" using inv True by (auto simp: race_inv_def)
  consider "pc s i = 0" | "pc s i = 1" | "pc s i = 2" using le2 by linarith
  then show ?thesis
  proof cases
    case 1
    from total True obtain x where x: "result i = Some x" by auto
    show ?thesis
    proof (cases x)
      case (Inl e)
      let ?s' = "s\<lparr>loaded := (loaded s)(i := failedTimes s), pc := (pc s)(i := 1)\<rparr>"
      have step: "goroutine_step result s i = ?s'"
        using True 1 x Inl np by (simp add: goroutine_step_def spawnNum_def)
      have ff: "finished_failures result ?s' = finished_failures result s"
        using 1 True by (auto simp: finished_failures_def lt3)
      show ?thesis
        unfolding step using inv True 1 x Inl ff
        by (auto simp: race_inv_def)
    next
      case (Inr r')
      let ?s' = "s\<lparr>resp_chan := resp_chan s @ [Some r'], pc := (pc s)(i := 2)\<rparr>"
      have step: "goroutine_step result s i = ?s'"
        using True 1 x Inr np by (simp add: goroutine_step_def spawnNum_def)
      have ff: "finished_failures result ?s' = finished_failures result s"
        using 1 True x Inr by (auto simp: finished_failures_def lt3)
      show ?thesis
        unfolding step using inv True 1 x Inr ff
        by (auto simp: race_inv_def)
    qed
  next
    case 2
    then obtain e where e: "result i = Some (Inl e)" using inv True by (auto simp: race_inv_def)
    have small: "loaded s i \<le> 1" using loaded_small[OF inv k True 2] .
    let ?s' = "s\<lparr>failedTimes := failedTimes s + 1, pc := (pc s)(i := 2)\<rparr>"
    have step: "goroutine_step result s i = ?s'"
      using True 2 e np small by (simp add: goroutine_step_def spawnNum_def)
    have ff: "finished_failures result ?s' = finished_failures result s + 1"
      using 2 True e by (auto simp: finished_failures_def lt3)
    show ?thesis
      unfolding step using inv True 2 e ff
      by (auto simp: race_inv_def)
  next
    case 3
    then show ?thesis using inv True np by (simp add: goroutine_step_def spawnNum_def)
  qed
qed

lemma race_inv_run:
  assumes "race_inv result s" "k < 3" "result k = Some (Inr r)" "\<forall>i<3. result i \<noteq> None"
  shows "race_inv result (foldl (goroutine_step result) s sched)"
  using assms(1)
proof (induction sched arbitrary: s)
  case Nil then show ?case by simp
next
  case (Cons i sched)
  then show ?case using race_inv_step[OF _ assms(2,3,4)] by simp
qed

lemma success_step_finishes:
  assumes "race_inv result s" "k < 3" "result k = Some (Inr r)"
  shows "pc (goroutine_step result s k) k = 2"
  using assms
proof -
  have "pc s k = 0 \<or> pc s k = 2"
  proof -
    have "pc s k \<le> 2" "pc s k \<noteq> 1" using assms by (auto simp: race_inv_def)
    then show ?thesis by linarith
  qed
  then show ?thesis
    using assms by (auto simp: goroutine_step_def race_inv_def spawnNum_def)
qed

lemma finished_stays:
  assumes "race_inv result s" "pc s k = 2" "k < 3"
  shows "pc (goroutine_step result s i) k = 2"
  using assms
  by (auto simp: goroutine_step_def race_inv_def spawnNum_def split: option.split sum.split)


lemma finished_stays_run:
  assumes k: "k < 3" "result k = Some (Inr r)" and total: "\<forall>i<3. result i \<noteq> None"
  shows "race_inv result s \<Longrightarrow> pc s k = 2 \<Longrightarrow> pc (foldl (goroutine_step result) s sched) k = 2"
proof (induction sched arbitrary: s)
  case Nil then show ?case by simp
next
  case (Cons i sched)
  have "race_inv result (goroutine_step result s i)"
    using race_inv_step[OF Cons.prems(1) k total] .
  moreover have "pc (goroutine_step result s i) k = 2"
    using finished_stays[OF Cons.prems(1) Cons.prems(2) k(1)] .
  ultimately show ?case using Cons.IH by simp
qed

lemma success_finishes_run:
  assumes k: "k < 3" "result k = Some (Inr r)" and total: "\<forall>i<3. result i \<noteq> None"
  shows "race_inv result s \<Longrightarrow> k \<in> set sched \<Longrightarrow> pc (foldl (goroutine_step result) s sched) k = 2"
proof (induction sched arbitrary: s)
  case Nil then show ?case by simp
next
  case (Cons i sched)
  have inv': "race_inv result (goroutine_step result s i)"
    using race_inv_step[OF Cons.prems(1) k total] .
  show ?case
  proof (cases "i = k")
    case True
    have "pc (goroutine_step result s k) k = 2"
      using success_step_finishes[OF Cons.prems(1) k] .
    then show ?thesis
      using finished_stays_run[OF k total inv'] True by simp
  next
    case False
    then have "k \<in> set sched" using Cons.prems(2) by simp
    then show ?thesis using Cons.IH[OF inv'] by simp
  qed
qed

lemma race_success_returns:
  assumes k: "k < 3" "result k = Some (Inr r)" and total: "\<forall>i<3. result i \<noteq> None"
  shows "\<exists>i<3. \<exists>r'. result i = Some (Inr r') \<and> received (run_to_end result sched) = Some (Inr r')"
proof -
  let ?s = "run_to_end result sched"
  have inv: "race_inv result ?s"
    unfolding run_to_end_def by (rule race_inv_run[OF race_inv_init k total])
  have "k \<in> set (sched @ [0, 0, 1, 1, 2, 2])"
    using k(1) by (auto simp: lt3)
  then have "pc ?s k = 2"
    unfolding run_to_end_def by (rule success_finishes_run[OF k total race_inv_init])
  then have "Some r \<in> set (resp_chan ?s)"
    using inv k by (auto simp: race_inv_def)
  then obtain x xs where xs: "resp_chan ?s = x # xs"
    by (cases "resp_chan ?s") auto
  then obtain i r' where "i < 3" "x = Some r'" "result i = Some (Inr r')"
    using inv by (auto simp: race_inv_def)
  moreover have "\<not> panicked ?s" using inv by (simp add: race_inv_def)
  ultimately show ?thesis
    using xs by (auto simp: received_def)
qed

text \<open>
  With three failed exchanges whose goroutines run one after the other, the race returns
  the error of the goroutine that ran last.
\<close>

lemma race_all_fail_in_turn:
  assumes "result 0 = Some (Inl e0)" "result 1 = Some (Inl e1)" "result 2 = Some (Inl e2)"
  shows "received (run_to_end result [0, 0, 1, 1, 2, 2]) = Some (Inl e2)"
    and "received (run_to_end result [0, 0, 2, 2, 1, 1]) = Some (Inl e1)"
    and "received (run_to_end result [1, 1, 0, 0, 2, 2]) = Some (Inl e2)"
    and "received (run_to_end result [1, 1, 2, 2, 0, 0]) = Some (Inl e0)"
    and "received (run_to_end result [2, 2, 0, 0, 1, 1]) = Some (Inl e1)"
    and "received (run_to_end result [2, 2, 1, 1, 0, 0]) = Some (Inl e0)"
  using assms
  by (simp_all add: received_def run_to_end_def goroutine_step_def race_init_def spawnNum_def)

text \<open>
  C5. Three failing exchanges, each goroutine loading the counter before any of them
  adds to it: every goroutine reads 0, none reads 2, nothing is sent on \<open>resp\<close>, and the
  call does not return.
\<close>

theorem race_all_fail_interleaved:
  "Exchange ex_fails \<lparr>nameserver = ''8.8.8.8:53'', net = ''tcp'', proxy = True\<rparr>
      (ex_query ''example.com.'') = Some (Inl ''i/o timeout'')
   \<and> legallySpawnExchange (\<lambda>i. ex_fails) [0, 1, 2, 0, 1, 2]
      \<lparr>nameserver = ''8.8.8.8:53'', net = ''tcp'', proxy = True\<rparr> (ex_query ''example.com.'')
     = None"
  by (simp add: legallySpawnExchange_def Exchange_def ex_fails_def received_def run_to_end_def
        goroutine_step_def race_init_def spawnNum_def)


section \<open>The DoH request and answer\<close>

lemma uitoa_1: "uitoa (unat (TypeA :: 16 word)) = ''1''"
  by code_simp


text \<open>
  Whatever the request holds, the values handed to the round trip have a third entry,
  \<open>edns_client_subnet\<close>.
\<close>

lemma Query_always_sends_subnet:
  "\<exists>e. Query rt qtype name [IP_String ecs] =
         RoundTrip rt [(''name'', name), (''type'', uitoa (unat qtype)), (''edns_client_subnet'', e)]"
  by (auto simp add: Query_def Query_values_def Let_def)

text \<open>
  C6. A request without OPT record over an \<open>https\<close> transport: the round trip is given
  the name, the type and an \<open>edns_client_subnet\<close> value, the text \<open><nil>\<close> of the nil
  address. (The example round trip answers with the query values it was given.)
\<close>

theorem doh_get_carries_nil_subnet:
  "IsEdns0 (ex_query ''example.com.'') = None
   \<and> Exchange ex_echo \<lparr>nameserver = ''dns.google.com:443'', net = ''https'', proxy = True\<rparr>
        (ex_query ''example.com.'')
     = Some (Inl ''name=example.com.&type=1&edns_client_subnet=<nil>'')"
  by (simp add: Exchange_def MsgExchangeOverGoogleDOH_def ex_query_def new_Msg_def doh_ecs_def
        IsEdns0_def Query_def Query_values_def ex_echo_def IP_String_examples uitoa_1 Let_def)


lemma MsgSetECSWithAddr_header [simp]:
  "Response (MsgSetECSWithAddr m a) = Response m"
  "Rcode (MsgSetECSWithAddr m a) = Rcode m"
  by (simp_all add: MsgSetECSWithAddr_def Let_def split: option.split prod.split)


text \<open>
  C10. Whenever the round trip gives a decoded answer with no more questions than the
  request has, \<open>MsgExchangeOverGoogleDOH\<close> returns a message whose Response flag is set
  exactly when the answer's Status is 0, and whose Rcode is the Status.
\<close>

theorem doh_Response_is_Status_zero:
  assumes "Question req = q # qs"
    and "Query rt (Qtype q) (q_Name q) [IP_String (doh_ecs req)] = Inr dohresp"
    and "length (resp_Question dohresp) \<le> length (Question req)"
  shows "\<exists>resp. MsgExchangeOverGoogleDOH rt req = Some (Inr resp)
           \<and> Response resp = (Status dohresp = 0)
           \<and> Rcode resp = sint (Status dohresp)"
  using assms
  by (simp add: MsgExchangeOverGoogleDOH_def Let_def)

theorem doh_Response_is_Status_zero_witness:
  "\<exists>resp. MsgExchangeOverGoogleDOH (ex_doh ex_nxdomain) (ex_query ''nosuch.example.'') = Some (Inr resp)
      \<and> Response resp = False \<and> Rcode resp = 3"
proof -
  have 1: "Question (ex_query ''nosuch.example.'')
            = \<lparr>q_Name = ''nosuch.example.'', Qtype = TypeA, Qclass = ClassINET\<rparr> # []"
    by (simp add: ex_query_Question)
  have 2: "Query (ex_doh ex_nxdomain) (Qtype \<lparr>q_Name = ''nosuch.example.'', Qtype = TypeA, Qclass = ClassINET\<rparr>)
             (q_Name \<lparr>q_Name = ''nosuch.example.'', Qtype = TypeA, Qclass = ClassINET\<rparr>)
             [IP_String (doh_ecs (ex_query ''nosuch.example.''))] = Inr ex_nxdomain"
    by (simp add: Query_def ex_doh_def)
  have 3: "length (resp_Question ex_nxdomain) \<le> length (Question (ex_query ''nosuch.example.''))"
    by (simp add: ex_nxdomain_def ex_query_Question)
  have 4: "Status ex_nxdomain \<noteq> 0" "sint (Status ex_nxdomain) = 3"
    by (simp_all add: ex_nxdomain_def)
  from doh_Response_is_Status_zero [OF 1 2 3] 4 show ?thesis by simp
qed



end
